theory Spec2Isabelle
  imports Complex_Main
begin

section \<open>The decimal substrate\<close>

text \<open>
  Modelled from the spec: the arithmetic of the external library \<^verbatim>\<open>decimal.js\<close>, which the
  calculator imports and whose code is not part of the repository. The spec asks for an exact
  base-10 substrate whose division by zero yields a NaN/Infinity-equivalent result instead of
  raising. A decimal is therefore an exact rational number, or \<open>NonFinite\<close>, the one value that
  stands for NaN and the infinities. \<open>NonFinite\<close> is absorbing and compares false with
  everything. The rounding of the library to 20 significant digits is not modelled.
\<close>

datatype decimal = Fin rat | NonFinite

fun dec_plus :: "decimal \<Rightarrow> decimal \<Rightarrow> decimal" where
  "dec_plus (Fin a) (Fin b) = Fin (a + b)"
| "dec_plus _ _ = NonFinite"

fun dec_minus :: "decimal \<Rightarrow> decimal \<Rightarrow> decimal" where
  "dec_minus (Fin a) (Fin b) = Fin (a - b)"
| "dec_minus _ _ = NonFinite"

fun dec_mul :: "decimal \<Rightarrow> decimal \<Rightarrow> decimal" where
  "dec_mul (Fin a) (Fin b) = Fin (a * b)"
| "dec_mul _ _ = NonFinite"

fun dec_div :: "decimal \<Rightarrow> decimal \<Rightarrow> decimal" where
  "dec_div (Fin a) (Fin b) = (if b = 0 then NonFinite else Fin (a / b))"
| "dec_div _ _ = NonFinite"


section \<open>The JavaScript runtime\<close>

text \<open>
  The solver of the money-weighted return works on JavaScript numbers (IEEE doubles) and
  on \<^verbatim>\<open>Date\<close> objects. Neither is code of the repository, so both are parameters: a runtime
  gives the number type \<open>'n\<close> with its operators and the date type \<open>'d\<close> with the methods
  the calculator calls. Every theorem below holds for every runtime.
  \<^item> \<open>js_lit q\<close> is the number literal of value \<open>q\<close>, \<open>js_nan\<close> the value an array
    read past its end turns into under arithmetic;
  \<^item> \<open>toNumber\<close> is \<^verbatim>\<open>Decimal.toNumber()\<close>, \<open>fromNumber\<close> is \<^verbatim>\<open>new Decimal(x)\<close>
    of a number;
  \<^item> \<open>addMonths d i\<close> is the date built by \<^verbatim>\<open>c = new Date(d); c.setMonth(c.getMonth() + i)\<close>.
\<close>

record ('n, 'd) runtime =
  js_lit :: "rat \<Rightarrow> 'n"
  js_nan :: "'n"
  js_add :: "'n \<Rightarrow> 'n \<Rightarrow> 'n"
  js_sub :: "'n \<Rightarrow> 'n \<Rightarrow> 'n"
  js_mul :: "'n \<Rightarrow> 'n \<Rightarrow> 'n"
  js_div :: "'n \<Rightarrow> 'n \<Rightarrow> 'n"
  js_neg :: "'n \<Rightarrow> 'n"
  js_lt :: "'n \<Rightarrow> 'n \<Rightarrow> bool"
  js_gt :: "'n \<Rightarrow> 'n \<Rightarrow> bool"
  js_neq :: "'n \<Rightarrow> 'n \<Rightarrow> bool"
  Math_abs :: "'n \<Rightarrow> 'n"
  Math_pow :: "'n \<Rightarrow> 'n \<Rightarrow> 'n"
  toNumber :: "decimal \<Rightarrow> 'n"
  fromNumber :: "'n \<Rightarrow> decimal"
  getFullYear :: "'d \<Rightarrow> int"
  getMonth :: "'d \<Rightarrow> int"
  getTime :: "'d \<Rightarrow> 'n"
  addMonths :: "'d \<Rightarrow> int \<Rightarrow> 'd"

section \<open>The data model (types.ts)\<close>

text \<open>
  The decimal fields of a configuration hold finite numbers, so they are rationals; the
  values the calculator computes are decimals. The string fields of the interfaces (names,
  descriptions, units, the currency) are never read by the calculator and are left out.
  \<open>num_months\<close> and the month of an override are JavaScript numbers holding whole values.
  \<open>isEmpty\<close> is the marker the calculator reads off an override with
  \<^verbatim>\<open>(monthlyReturn as any).isEmpty\<close>; \<open>monthlyReturns\<close> is an optional field.
\<close>

record Fee =
  fee_value :: rat
  fee_applied_time_unit :: rat

record Returns =
  returns_value :: rat
  returns_applied_time_unit :: rat

record MonthlyReturn =
  mr_month :: int
  mr_value :: rat
  isEmpty :: bool

record 'd Global =
  start_date :: 'd
  end_date :: 'd
  starting_principle :: rat
  monthly_contribution :: rat
  num_months :: int

record 'd InvestmentConfig =
  config_fees :: "Fee list"
  config_returns :: Returns
  monthlyReturns :: "MonthlyReturn list option"
  global :: "'d Global"

record 'd TableRow =
  month :: nat
  date :: 'd
  startingPrinciple :: decimal
  endingPrinciple :: decimal
  returns :: decimal
  fees :: decimal
  valueWithoutFees :: decimal
  cumulativeFees :: decimal
  cumulativeContributions :: decimal
  feesPercentage :: decimal
  momGrossReturnRate :: decimal
  totalGrossReturnRate :: decimal
  momNetReturnRate :: decimal
  momNetExclContribReturnRate :: decimal
  totalNetReturnRate :: decimal
  timeWeightedReturn :: decimal
  moneyWeightedReturn :: decimal

text \<open>
  What the calculator can throw: the two \<^verbatim>\<open>Error\<close>s it raises itself, and the
  \<^verbatim>\<open>TypeError\<close> of reading a field of a row that is not in the table.
\<close>

datatype error =
  LengthMismatch
  | RowNotInTable nat
  | UndefinedRow

definition row_at :: "'d TableRow list \<Rightarrow> int \<Rightarrow> error + 'd TableRow" where
  "row_at tableData i =
     (if 0 \<le> i \<and> i < int (length tableData) then Inr (tableData ! nat i) else Inl UndefinedRow)"

section \<open>The calculator (class InvestmentCalculator)\<close>

subsection \<open>Configuration resolver\<close>

definition calculateMonthDifference :: "('n, 'd) runtime \<Rightarrow> 'd InvestmentConfig \<Rightarrow> int" where
  "calculateMonthDifference rt config =
     (let g = global config in
      if num_months g > 0 then num_months g
      else (getFullYear rt (end_date g) - getFullYear rt (start_date g)) * 12
           + (getMonth rt (end_date g) - getMonth rt (start_date g)))"

definition calculateDefaultMonthlyReturnRate :: "'d InvestmentConfig \<Rightarrow> decimal" where
  "calculateDefaultMonthlyReturnRate config =
     dec_div (Fin (returns_value (config_returns config)))
             (Fin (returns_applied_time_unit (config_returns config)))"

definition getMonthlyReturnRate :: "'d InvestmentConfig \<Rightarrow> nat \<Rightarrow> decimal" where
  "getMonthlyReturnRate config m =
     (case monthlyReturns config of
        None \<Rightarrow> calculateDefaultMonthlyReturnRate config
      | Some mrs \<Rightarrow>
          if length mrs > 0 then
            (case find (\<lambda>r. mr_month r = int m) mrs of
               Some monthlyReturn \<Rightarrow>
                 if isEmpty monthlyReturn then Fin 0
                 else dec_div (Fin (mr_value monthlyReturn)) (Fin 100)
             | None \<Rightarrow> calculateDefaultMonthlyReturnRate config)
          else calculateDefaultMonthlyReturnRate config)"

subsection \<open>Month stepper\<close>

definition initializeTable :: "'d InvestmentConfig \<Rightarrow> 'd TableRow list" where
  "initializeTable config =
     [\<lparr> month = 0,
        date = start_date (global config),
        startingPrinciple = Fin (starting_principle (global config)),
        endingPrinciple = Fin (starting_principle (global config)),
        returns = Fin 0,
        fees = Fin 0,
        valueWithoutFees = Fin (starting_principle (global config)),
        cumulativeFees = Fin 0,
        cumulativeContributions = Fin (starting_principle (global config)),
        feesPercentage = Fin 0,
        momGrossReturnRate = Fin 0,
        totalGrossReturnRate = Fin 0,
        momNetReturnRate = Fin 0,
        momNetExclContribReturnRate = Fin 0,
        totalNetReturnRate = Fin 0,
        timeWeightedReturn = Fin 0,
        moneyWeightedReturn = Fin 0 \<rparr>]"

definition calculateMonthlyFees :: "'d InvestmentConfig \<Rightarrow> decimal \<Rightarrow> decimal" where
  "calculateMonthlyFees config principle =
     foldl (\<lambda>total fee.
              let monthlyFeeRate = dec_div (Fin (fee_value fee)) (Fin (fee_applied_time_unit fee))
              in dec_plus total (dec_mul principle monthlyFeeRate))
           (Fin 0) (config_fees config)"

definition addTableRow ::
  "'d TableRow list \<Rightarrow> nat \<Rightarrow> 'd \<Rightarrow> decimal \<Rightarrow> decimal \<Rightarrow> decimal \<Rightarrow> decimal \<Rightarrow> decimal \<Rightarrow>
   decimal \<Rightarrow> decimal \<Rightarrow> decimal \<Rightarrow> decimal \<Rightarrow> decimal \<Rightarrow> decimal \<Rightarrow> decimal \<Rightarrow> decimal \<Rightarrow>
   decimal \<Rightarrow> 'd TableRow list" where
  "addTableRow tableData month' date' startingPrinciple' endingPrinciple' returns' fees'
     valueWithoutFees' cumulativeFees' cumulativeContributions' momGrossReturnRate'
     totalGrossReturnRate' momNetReturnRate' momNetExclContribReturnRate' totalNetReturnRate'
     timeWeightedReturn' moneyWeightedReturn' =
     tableData @
     [\<lparr> month = month',
        date = date',
        startingPrinciple = startingPrinciple',
        endingPrinciple = endingPrinciple',
        returns = returns',
        fees = fees',
        valueWithoutFees = valueWithoutFees',
        cumulativeFees = cumulativeFees',
        cumulativeContributions = cumulativeContributions',
        feesPercentage = dec_mul (dec_div fees' startingPrinciple') (Fin 100),
        momGrossReturnRate = momGrossReturnRate',
        totalGrossReturnRate = totalGrossReturnRate',
        momNetReturnRate = momNetReturnRate',
        momNetExclContribReturnRate = momNetExclContribReturnRate',
        totalNetReturnRate = totalNetReturnRate',
        timeWeightedReturn = timeWeightedReturn',
        moneyWeightedReturn = moneyWeightedReturn' \<rparr>]"

subsection \<open>Time-weighted return\<close>

definition calculateSinglePeriodReturn ::
  "'d InvestmentConfig \<Rightarrow> 'd TableRow list \<Rightarrow> nat \<Rightarrow> error + decimal" where
  "calculateSinglePeriodReturn config tableData m =
     (if length tableData \<le> m then Inl (RowNotInTable m)
      else
        (case row_at tableData (int m - 1) of
           Inl e \<Rightarrow> Inl e
         | Inr prevRow \<Rightarrow>
             let currentRow = tableData ! m;
                 startValue = endingPrinciple prevRow;
                 endValue = endingPrinciple currentRow;
                 contribution = monthly_contribution (global config)
             in if contribution > 0 then
                  Inr (dec_mul (dec_minus (dec_div (dec_minus endValue (Fin contribution)) startValue)
                                          (Fin 1)) (Fin 100))
                else
                  Inr (dec_mul (dec_minus (dec_div endValue startValue) (Fin 1)) (Fin 100))))"

text \<open>The first loop of \<^verbatim>\<open>calculateTimeWeightedReturn\<close>: the period returns of the months
  in the list, in order; a throw of \<^verbatim>\<open>calculateSinglePeriodReturn\<close> ends it.\<close>

fun periodReturnsLoop ::
  "'d InvestmentConfig \<Rightarrow> 'd TableRow list \<Rightarrow> nat list \<Rightarrow> error + decimal list" where
  "periodReturnsLoop config tableData [] = Inr []"
| "periodReturnsLoop config tableData (i # is) =
     (case calculateSinglePeriodReturn config tableData i of
        Inl e \<Rightarrow> Inl e
      | Inr periodReturn \<Rightarrow>
          (case periodReturnsLoop config tableData is of
             Inl e \<Rightarrow> Inl e
           | Inr periodReturns \<Rightarrow> Inr (periodReturn # periodReturns)))"

definition calculateTimeWeightedReturn ::
  "'d InvestmentConfig \<Rightarrow> 'd TableRow list \<Rightarrow> nat \<Rightarrow> error + decimal" where
  "calculateTimeWeightedReturn config tableData currentMonth =
     (if currentMonth = 0 then Inr (Fin 0)
      else
        (case periodReturnsLoop config tableData [1..<currentMonth] of
           Inl e \<Rightarrow> Inl e
         | Inr periodReturns0 \<Rightarrow>
             (case row_at tableData (int currentMonth - 1) of
                Inl e \<Rightarrow> Inl e
              | Inr prevRow \<Rightarrow>
                  let startValue = endingPrinciple prevRow;
                      contribution =
                        (if monthly_contribution (global config) > 0
                         then monthly_contribution (global config) else 0);
                      principleWithContribution = dec_plus startValue (Fin contribution);
                      monthlyReturn =
                        dec_mul principleWithContribution (calculateDefaultMonthlyReturnRate config);
                      principleAfterReturns = dec_plus principleWithContribution monthlyReturn;
                      monthlyFee = calculateMonthlyFees config principleAfterReturns;
                      endValue = dec_minus principleAfterReturns monthlyFee;
                      periodReturn =
                        (if contribution > 0 then
                           dec_mul (dec_minus (dec_div (dec_minus endValue (Fin contribution)) startValue)
                                              (Fin 1)) (Fin 100)
                         else
                           dec_mul (dec_minus (dec_div endValue startValue) (Fin 1)) (Fin 100));
                      periodReturns = periodReturns0 @ [periodReturn];
                      cumulativeReturn =
                        foldl (\<lambda>cumulativeReturn returnRate.
                                 dec_mul cumulativeReturn (dec_plus (Fin 1) (dec_div returnRate (Fin 100))))
                              (Fin 1) periodReturns
                  in Inr (dec_mul (dec_minus cumulativeReturn (Fin 1)) (Fin 100)))))"

subsection \<open>Money-weighted return: the Newton-Raphson solver\<close>

definition datesToYearFractions :: "('n, 'd) runtime \<Rightarrow> 'd list \<Rightarrow> 'n list" where
  "datesToYearFractions rt dates =
     (case dates of
        [] \<Rightarrow> []
      | firstDate # _ \<Rightarrow>
          map (\<lambda>d. let diffMs = js_sub rt (getTime rt d) (getTime rt firstDate)
                    in js_div rt diffMs (js_lit rt (365.25 * 24 * 60 * 60 * 1000)))
              dates)"

text \<open>The loop runs over the indices of \<open>cashFlows\<close>; a read of \<open>yearFractions\<close> past its
  end gives \<^verbatim>\<open>undefined\<close>, which the arithmetic that follows treats as NaN.\<close>

definition calculateNPVAndDerivative ::
  "('n, 'd) runtime \<Rightarrow> 'n list \<Rightarrow> 'n list \<Rightarrow> 'n \<Rightarrow> 'n \<times> 'n" where
  "calculateNPVAndDerivative rt cashFlows yearFractions rate =
     foldl (\<lambda>(npv, derivative) i.
              let t = (if i < length yearFractions then yearFractions ! i else js_nan rt);
                  discountFactor = Math_pow rt (js_add rt (js_lit rt 1) rate) (js_neg rt t);
                  npv' = js_add rt npv (js_mul rt (cashFlows ! i) discountFactor);
                  derivative' =
                    (if js_neq rt t (js_lit rt 0) then
                       js_sub rt derivative
                         (js_div rt (js_mul rt (js_mul rt t (cashFlows ! i)) discountFactor)
                                    (js_add rt (js_lit rt 1) rate))
                     else derivative)
              in (npv', derivative'))
           (js_lit rt 0, js_lit rt 0) [0..<length cashFlows]"

text \<open>
  The \<^verbatim>\<open>for\<close> loop of \<^verbatim>\<open>calculateImprovedIRR\<close>, from the value \<open>iteration\<close> of its counter
  and the working \<open>rate\<close>. It returns the rate the function returns, together with the number
  of times the loop body was entered (the source does not return that number; it is kept to
  state how long the loop runs). Leaving by \<^verbatim>\<open>break\<close> and leaving because the counter reached
  \<^verbatim>\<open>MAX_ITERATIONS\<close> both return the working rate.
\<close>

function irrLoop :: "('n, 'd) runtime \<Rightarrow> 'n list \<Rightarrow> 'n list \<Rightarrow> nat \<Rightarrow> 'n \<Rightarrow> 'n \<times> nat" where
  "irrLoop rt cashFlows yearFractions iteration rate =
     (if iteration < 100 then
        (case calculateNPVAndDerivative rt cashFlows yearFractions rate of
           (npv, derivative) \<Rightarrow>
             if js_lt rt (Math_abs rt npv) (js_lit rt 0.0000001) then (rate, Suc iteration)
             else if js_lt rt (Math_abs rt derivative) (js_lit rt 0.0000001) then (rate, Suc iteration)
             else
               (let newRate = js_sub rt rate (js_div rt npv derivative) in
                if js_lt rt (Math_abs rt (js_sub rt newRate rate)) (js_lit rt 0.0000001)
                then (newRate, Suc iteration)
                else
                  (let rate1 = (if js_lt rt newRate (js_lit rt (- 0.99))
                                then js_lit rt (- 0.99) else newRate);
                       rate2 = (if js_gt rt rate1 (js_lit rt 100) then js_lit rt 100 else rate1)
                   in irrLoop rt cashFlows yearFractions (Suc iteration) rate2)))
      else (rate, iteration))"
  by pat_completeness auto
termination
  by (relation "measure (\<lambda>(rt, cashFlows, yearFractions, iteration, rate). 100 - iteration)") auto

declare irrLoop.simps [simp del]

text \<open>The result of \<^verbatim>\<open>calculateImprovedIRR\<close> with the number of loop bodies entered.\<close>

definition calculateImprovedIRR_traced ::
  "('n, 'd) runtime \<Rightarrow> 'n list \<Rightarrow> 'd list \<Rightarrow> (error + 'n) \<times> nat" where
  "calculateImprovedIRR_traced rt cashFlows dates =
     (if length cashFlows \<noteq> length dates then (Inl LengthMismatch, 0)
      else
        (let yearFractions = datesToYearFractions rt dates
         in case irrLoop rt cashFlows yearFractions 0 (js_lit rt 0.1) of
              (rate, n) \<Rightarrow> (Inr rate, n)))"

definition calculateImprovedIRR :: "('n, 'd) runtime \<Rightarrow> 'n list \<Rightarrow> 'd list \<Rightarrow> error + 'n" where
  "calculateImprovedIRR rt cashFlows dates = fst (calculateImprovedIRR_traced rt cashFlows dates)"

text \<open>
  Names for the parts of one pass through the loop body, at the working \<open>rate\<close>: the test
  \<^verbatim>\<open>Math.abs(npv) < PRECISION\<close>, the test \<^verbatim>\<open>Math.abs(derivative) < PRECISION\<close>, the value
  \<^verbatim>\<open>newRate = rate - npv / derivative\<close>, the test \<^verbatim>\<open>Math.abs(newRate - rate) < PRECISION\<close>, and
  the two statements that bound the rate handed to the next pass,
  \<^verbatim>\<open>if (rate < -0.99) rate = -0.99; if (rate > 100) rate = 100\<close>. A pass continues to the next
  one when none of the three tests holds. Lemma \<open>irrLoop_pass\<close> shows that the loop is made of
  these parts.
\<close>

definition npvConverged :: "('n, 'd) runtime \<Rightarrow> 'n list \<Rightarrow> 'n list \<Rightarrow> 'n \<Rightarrow> bool" where
  "npvConverged rt cashFlows yearFractions rate =
     (case calculateNPVAndDerivative rt cashFlows yearFractions rate of
        (npv, derivative) \<Rightarrow> js_lt rt (Math_abs rt npv) (js_lit rt 0.0000001))"

definition derivativeNearZero :: "('n, 'd) runtime \<Rightarrow> 'n list \<Rightarrow> 'n list \<Rightarrow> 'n \<Rightarrow> bool" where
  "derivativeNearZero rt cashFlows yearFractions rate =
     (case calculateNPVAndDerivative rt cashFlows yearFractions rate of
        (npv, derivative) \<Rightarrow> js_lt rt (Math_abs rt derivative) (js_lit rt 0.0000001))"

definition newRate :: "('n, 'd) runtime \<Rightarrow> 'n list \<Rightarrow> 'n list \<Rightarrow> 'n \<Rightarrow> 'n" where
  "newRate rt cashFlows yearFractions rate =
     (case calculateNPVAndDerivative rt cashFlows yearFractions rate of
        (npv, derivative) \<Rightarrow> js_sub rt rate (js_div rt npv derivative))"

definition rateConverged :: "('n, 'd) runtime \<Rightarrow> 'n list \<Rightarrow> 'n list \<Rightarrow> 'n \<Rightarrow> bool" where
  "rateConverged rt cashFlows yearFractions rate =
     js_lt rt (Math_abs rt (js_sub rt (newRate rt cashFlows yearFractions rate) rate))
              (js_lit rt 0.0000001)"

definition boundRate :: "('n, 'd) runtime \<Rightarrow> 'n \<Rightarrow> 'n" where
  "boundRate rt rate =
     (let rate1 = (if js_lt rt rate (js_lit rt (- 0.99)) then js_lit rt (- 0.99) else rate);
          rate2 = (if js_gt rt rate1 (js_lit rt 100) then js_lit rt 100 else rate1)
      in rate2)"

definition passContinues :: "('n, 'd) runtime \<Rightarrow> 'n list \<Rightarrow> 'n list \<Rightarrow> 'n \<Rightarrow> bool" where
  "passContinues rt cashFlows yearFractions rate =
     (\<not> npvConverged rt cashFlows yearFractions rate \<and>
      \<not> derivativeNearZero rt cashFlows yearFractions rate \<and>
      \<not> rateConverged rt cashFlows yearFractions rate)"

subsection \<open>Money-weighted return: the cash-flow schedule\<close>

text \<open>The loop of \<^verbatim>\<open>calculateMoneyWeightedReturn\<close> that pushes one outflow and one date for
  each month of the list.\<close>

fun contributionsLoop ::
  "('n, 'd) runtime \<Rightarrow> 'd InvestmentConfig \<Rightarrow> nat list \<Rightarrow> 'n list \<times> 'd list \<Rightarrow> 'n list \<times> 'd list" where
  "contributionsLoop rt config [] (cashFlows, dates) = (cashFlows, dates)"
| "contributionsLoop rt config (i # is) (cashFlows, dates) =
     (if monthly_contribution (global config) \<noteq> 0 then
        contributionsLoop rt config is
          (cashFlows @ [js_neg rt (toNumber rt (Fin (monthly_contribution (global config))))],
           dates @ [addMonths rt (start_date (global config)) (int i)])
      else contributionsLoop rt config is (cashFlows, dates))"

text \<open>The arrays \<open>cashFlows\<close> and \<open>dates\<close> as they stand when
  \<^verbatim>\<open>calculateMoneyWeightedReturn\<close> hands them to the solver.\<close>

definition cashFlowSchedule ::
  "('n, 'd) runtime \<Rightarrow> 'd InvestmentConfig \<Rightarrow> 'd TableRow list \<Rightarrow> nat \<Rightarrow>
   error + ('n list \<times> 'd list)" where
  "cashFlowSchedule rt config tableData currentMonth =
     (case contributionsLoop rt config [1..<Suc currentMonth]
             ([js_neg rt (toNumber rt (Fin (starting_principle (global config))))],
              [start_date (global config)]) of
        (cashFlows, dates) \<Rightarrow>
          (case (if length tableData > currentMonth then
                   Inr (toNumber rt (endingPrinciple (tableData ! currentMonth)))
                 else
                   (case row_at tableData (int currentMonth - 1) of
                      Inl e \<Rightarrow> Inl e
                    | Inr prevRow \<Rightarrow>
                        let startingPrinciple0 = endingPrinciple prevRow;
                            startingPrinciple' =
                              (if monthly_contribution (global config) > 0
                               then dec_plus startingPrinciple0 (Fin (monthly_contribution (global config)))
                               else startingPrinciple0);
                            monthlyReturn =
                              dec_mul startingPrinciple' (calculateDefaultMonthlyReturnRate config);
                            principleAfterReturns = dec_plus startingPrinciple' monthlyReturn;
                            monthlyFee = calculateMonthlyFees config principleAfterReturns;
                            endingPrinciple' = dec_minus principleAfterReturns monthlyFee
                        in Inr (toNumber rt endingPrinciple'))) of
             Inl e \<Rightarrow> Inl e
           | Inr finalValue \<Rightarrow>
               Inr (cashFlows @ [finalValue],
                    dates @ [addMonths rt (start_date (global config)) (int currentMonth)])))"

definition calculateMoneyWeightedReturn ::
  "('n, 'd) runtime \<Rightarrow> 'd InvestmentConfig \<Rightarrow> 'd TableRow list \<Rightarrow> nat \<Rightarrow> error + decimal" where
  "calculateMoneyWeightedReturn rt config tableData currentMonth =
     (if currentMonth = 0 then Inr (Fin 0)
      else if monthly_contribution (global config) = 0 then
        (case row_at tableData (int currentMonth - 1) of
           Inl e \<Rightarrow> Inl e
         | Inr prevRow \<Rightarrow>
             let startingPrinciple' = endingPrinciple prevRow;
                 monthlyReturn = dec_mul startingPrinciple' (calculateDefaultMonthlyReturnRate config);
                 principleAfterReturns = dec_plus startingPrinciple' monthlyReturn;
                 monthlyFee = calculateMonthlyFees config principleAfterReturns;
                 endingPrinciple' = dec_minus principleAfterReturns monthlyFee
             in Inr (dec_mul (dec_minus (dec_div endingPrinciple'
                                                 (Fin (starting_principle (global config))))
                                        (Fin 1)) (Fin 100)))
      else
        (case cashFlowSchedule rt config tableData currentMonth of
           Inl e \<Rightarrow> Inl e
         | Inr (cashFlows, dates) \<Rightarrow>
             (case calculateImprovedIRR rt cashFlows dates of
                Inl e \<Rightarrow> Inl e
              | Inr irr \<Rightarrow> Inr (dec_mul (fromNumber rt irr) (Fin 100)))))"

subsection \<open>One month, all months\<close>

definition calculateMonth ::
  "('n, 'd) runtime \<Rightarrow> 'd InvestmentConfig \<Rightarrow> 'd TableRow list \<Rightarrow> nat \<Rightarrow> error + 'd TableRow list" where
  "calculateMonth rt config tableData m =
     (case row_at tableData (int m - 1) of
        Inl e \<Rightarrow> Inl e
      | Inr prevRow \<Rightarrow>
          let g = global config;
              currentDate = addMonths rt (start_date g) (int m);
              contributes = (monthly_contribution g > 0);
              startingPrinciple' =
                (if contributes then dec_plus (endingPrinciple prevRow) (Fin (monthly_contribution g))
                 else endingPrinciple prevRow);
              cumulativeContributions' =
                (if contributes
                 then dec_plus (cumulativeContributions prevRow) (Fin (monthly_contribution g))
                 else cumulativeContributions prevRow);
              monthlyReturnRate = getMonthlyReturnRate config m;
              monthlyReturn = dec_mul startingPrinciple' monthlyReturnRate;
              principleAfterReturns = dec_plus startingPrinciple' monthlyReturn;
              monthlyFee = calculateMonthlyFees config principleAfterReturns;
              endingPrinciple' = dec_minus principleAfterReturns monthlyFee;
              cumulativeFees' = dec_plus (cumulativeFees prevRow) monthlyFee;
              valueWithoutFees' =
                (if contributes then
                   dec_plus (dec_plus (valueWithoutFees prevRow) (Fin (monthly_contribution g)))
                            (dec_mul (dec_plus (valueWithoutFees prevRow) (Fin (monthly_contribution g)))
                                     monthlyReturnRate)
                 else
                   dec_plus (valueWithoutFees prevRow)
                            (dec_mul (valueWithoutFees prevRow) monthlyReturnRate));
              totalNetReturnRate' =
                dec_mul (dec_minus (dec_div endingPrinciple' cumulativeContributions') (Fin 1)) (Fin 100);
              momGrossReturnRate' = dec_mul monthlyReturnRate (Fin 100);
              totalGrossReturnRate' =
                dec_mul (dec_minus (dec_div valueWithoutFees' cumulativeContributions') (Fin 1)) (Fin 100);
              momNetReturnRate' =
                dec_mul (dec_minus (dec_div endingPrinciple' startingPrinciple') (Fin 1)) (Fin 100);
              momNetExclContribReturnRate' =
                dec_mul (dec_minus (dec_div endingPrinciple' (endingPrinciple prevRow)) (Fin 1)) (Fin 100);
              tableData1 =
                addTableRow tableData m currentDate startingPrinciple' endingPrinciple' monthlyReturn
                  monthlyFee valueWithoutFees' cumulativeFees' cumulativeContributions'
                  momGrossReturnRate' totalGrossReturnRate' momNetReturnRate'
                  momNetExclContribReturnRate' totalNetReturnRate' (Fin 0) (Fin 0)
          in (case calculateTimeWeightedReturn config tableData1 m of
                Inl e \<Rightarrow> Inl e
              | Inr timeWeightedReturn' \<Rightarrow>
                  (case calculateMoneyWeightedReturn rt config tableData1 m of
                     Inl e \<Rightarrow> Inl e
                   | Inr moneyWeightedReturn' \<Rightarrow>
                       if m < length tableData1 then
                         Inr (tableData1[m := (tableData1 ! m)
                                \<lparr> timeWeightedReturn := timeWeightedReturn',
                                  moneyWeightedReturn := moneyWeightedReturn' \<rparr>])
                       else Inl UndefinedRow)))"

text \<open>The loop of \<^verbatim>\<open>calculateAllMonths\<close> from the value \<open>m\<close> of its counter; \<open>monthDiff\<close> is
  the month count the constructor resolved.\<close>

function calculateAllMonths ::
  "('n, 'd) runtime \<Rightarrow> 'd InvestmentConfig \<Rightarrow> int \<Rightarrow> nat \<Rightarrow> 'd TableRow list \<Rightarrow>
   error + 'd TableRow list" where
  "calculateAllMonths rt config monthDiff m tableData =
     (if int m \<le> monthDiff then
        (case calculateMonth rt config tableData m of
           Inl e \<Rightarrow> Inl e
         | Inr tableData' \<Rightarrow> calculateAllMonths rt config monthDiff (Suc m) tableData')
      else Inr tableData)"
  by pat_completeness auto
termination
  by (relation "measure (\<lambda>(rt, config, monthDiff, m, tableData). nat (monthDiff + 1 - int m))") auto

definition calculate :: "('n, 'd) runtime \<Rightarrow> 'd InvestmentConfig \<Rightarrow> error + 'd TableRow list" where
  "calculate rt config =
     calculateAllMonths rt config (calculateMonthDifference rt config) 1 (initializeTable config)"

text \<open>
  The row \<^verbatim>\<open>calculateMonth\<close> pushes for month \<open>m\<close> (both analytic fields still at their
  placeholder), as a function of the previous row. It repeats the body of \<open>calculateMonth\<close>
  up to the call of \<open>addTableRow\<close>; lemma \<open>calculateMonth_unfold\<close> shows that it is that row.
\<close>

definition pushedRow ::
  "('n, 'd) runtime \<Rightarrow> 'd InvestmentConfig \<Rightarrow> 'd TableRow \<Rightarrow> nat \<Rightarrow> 'd TableRow" where
  "pushedRow rt config prevRow m =
     (let g = global config;
          contributes = (monthly_contribution g > 0);
          startingPrinciple' =
            (if contributes then dec_plus (endingPrinciple prevRow) (Fin (monthly_contribution g))
             else endingPrinciple prevRow);
          cumulativeContributions' =
            (if contributes
             then dec_plus (cumulativeContributions prevRow) (Fin (monthly_contribution g))
             else cumulativeContributions prevRow);
          monthlyReturnRate = getMonthlyReturnRate config m;
          monthlyReturn = dec_mul startingPrinciple' monthlyReturnRate;
          principleAfterReturns = dec_plus startingPrinciple' monthlyReturn;
          monthlyFee = calculateMonthlyFees config principleAfterReturns;
          endingPrinciple' = dec_minus principleAfterReturns monthlyFee;
          valueWithoutFees' =
            (if contributes then
               dec_plus (dec_plus (valueWithoutFees prevRow) (Fin (monthly_contribution g)))
                        (dec_mul (dec_plus (valueWithoutFees prevRow) (Fin (monthly_contribution g)))
                                 monthlyReturnRate)
             else
               dec_plus (valueWithoutFees prevRow)
                        (dec_mul (valueWithoutFees prevRow) monthlyReturnRate))
      in \<lparr> month = m,
           date = addMonths rt (start_date g) (int m),
           startingPrinciple = startingPrinciple',
           endingPrinciple = endingPrinciple',
           returns = monthlyReturn,
           fees = monthlyFee,
           valueWithoutFees = valueWithoutFees',
           cumulativeFees = dec_plus (cumulativeFees prevRow) monthlyFee,
           cumulativeContributions = cumulativeContributions',
           feesPercentage = dec_mul (dec_div monthlyFee startingPrinciple') (Fin 100),
           momGrossReturnRate = dec_mul monthlyReturnRate (Fin 100),
           totalGrossReturnRate =
             dec_mul (dec_minus (dec_div valueWithoutFees' cumulativeContributions') (Fin 1)) (Fin 100),
           momNetReturnRate =
             dec_mul (dec_minus (dec_div endingPrinciple' startingPrinciple') (Fin 1)) (Fin 100),
           momNetExclContribReturnRate =
             dec_mul (dec_minus (dec_div endingPrinciple' (endingPrinciple prevRow)) (Fin 1)) (Fin 100),
           totalNetReturnRate =
             dec_mul (dec_minus (dec_div endingPrinciple' cumulativeContributions') (Fin 1)) (Fin 100),
           timeWeightedReturn = Fin 0,
           moneyWeightedReturn = Fin 0 \<rparr>)"

text \<open>Three more names for parts of the source, used to state and prove the theorems:
  the second step of \<^verbatim>\<open>calculateTimeWeightedReturn\<close> (the geometric linking of a list of period
  returns, in percent), its block for the current month (the period return replayed from the
  ending principal of the previous row), and a row with its money-weighted return blanked.
  Lemma \<open>calculateTimeWeightedReturn_unfold\<close> shows that the first two are those parts.\<close>

definition linkReturns :: "decimal list \<Rightarrow> decimal" where
  "linkReturns periodReturns =
     dec_mul (dec_minus (foldl (\<lambda>cumulativeReturn returnRate.
                                  dec_mul cumulativeReturn (dec_plus (Fin 1) (dec_div returnRate (Fin 100))))
                               (Fin 1) periodReturns)
                        (Fin 1)) (Fin 100)"

definition replayedPeriodReturn :: "'d InvestmentConfig \<Rightarrow> decimal \<Rightarrow> decimal" where
  "replayedPeriodReturn config startValue =
     (let contribution =
            (if monthly_contribution (global config) > 0
             then monthly_contribution (global config) else 0);
          principleWithContribution = dec_plus startValue (Fin contribution);
          monthlyReturn =
            dec_mul principleWithContribution (calculateDefaultMonthlyReturnRate config);
          principleAfterReturns = dec_plus principleWithContribution monthlyReturn;
          monthlyFee = calculateMonthlyFees config principleAfterReturns;
          endValue = dec_minus principleAfterReturns monthlyFee
      in if contribution > 0 then
           dec_mul (dec_minus (dec_div (dec_minus endValue (Fin contribution)) startValue)
                              (Fin 1)) (Fin 100)
         else
           dec_mul (dec_minus (dec_div endValue startValue) (Fin 1)) (Fin 100))"

definition withoutMWR :: "'d TableRow \<Rightarrow> 'd TableRow" where
  "withoutMWR r = r \<lparr> moneyWeightedReturn := Fin 0 \<rparr>"

section \<open>A runtime for concrete runs\<close>

text \<open>
  An instance of the runtime on which terms evaluate. Numbers are exact rationals, with
  \<open>None\<close> for NaN and the infinities; \<^verbatim>\<open>Math.pow\<close> is given for whole exponents, and
  yields NaN for any other exponent, whose power is no rational number. Dates are the
  first days of months in UTC, numbered \<open>12 * year + month\<close> with January as month 0;
  \<open>daysFromCivil\<close> counts the days from 1970-01-01 to such a day.
\<close>

definition daysFromCivil :: "int \<Rightarrow> int \<Rightarrow> int" where
  "daysFromCivil y m0 =
     (let y' = (if m0 < 2 then y - 1 else y);
          era = y' div 400;
          yoe = y' mod 400;
          mp = (m0 + 10) mod 12;
          doy = (153 * mp + 2) div 5;
          doe = yoe * 365 + yoe div 4 - yoe div 100 + doy
      in era * 146097 + doe - 719468)"

fun lift2 :: "(rat \<Rightarrow> rat \<Rightarrow> rat) \<Rightarrow> rat option \<Rightarrow> rat option \<Rightarrow> rat option" where
  "lift2 f (Some a) (Some b) = Some (f a b)"
| "lift2 f _ _ = None"

fun div_num :: "rat option \<Rightarrow> rat option \<Rightarrow> rat option" where
  "div_num (Some a) (Some b) = (if b = 0 then None else Some (a / b))"
| "div_num _ _ = None"

fun cmp_num :: "(rat \<Rightarrow> rat \<Rightarrow> bool) \<Rightarrow> rat option \<Rightarrow> rat option \<Rightarrow> bool" where
  "cmp_num f (Some a) (Some b) = f a b"
| "cmp_num f _ _ = False"

fun neq_num :: "rat option \<Rightarrow> rat option \<Rightarrow> bool" where
  "neq_num (Some a) (Some b) = (a \<noteq> b)"
| "neq_num _ _ = True"

fun pow_num :: "rat option \<Rightarrow> rat option \<Rightarrow> rat option" where
  "pow_num (Some a) (Some b) =
     (if of_int \<lfloor>b\<rfloor> \<noteq> b then None
      else if 0 \<le> b then Some (a ^ nat \<lfloor>b\<rfloor>)
      else if a = 0 then None
      else Some (1 / a ^ nat (- \<lfloor>b\<rfloor>)))"
| "pow_num _ _ = None"

fun decimal_to_num :: "decimal \<Rightarrow> rat option" where
  "decimal_to_num (Fin a) = Some a"
| "decimal_to_num NonFinite = None"

fun num_to_decimal :: "rat option \<Rightarrow> decimal" where
  "num_to_decimal (Some a) = Fin a"
| "num_to_decimal None = NonFinite"

definition exact_runtime :: "(rat option, int) runtime" where
  "exact_runtime =
     \<lparr> js_lit = Some,
       js_nan = None,
       js_add = lift2 (+),
       js_sub = lift2 (-),
       js_mul = lift2 (*),
       js_div = div_num,
       js_neg = map_option uminus,
       js_lt = cmp_num (<),
       js_gt = cmp_num (\<lambda>a b. b < a),
       js_neq = neq_num,
       Math_abs = map_option abs,
       Math_pow = pow_num,
       toNumber = decimal_to_num,
       fromNumber = num_to_decimal,
       getFullYear = (\<lambda>d. d div 12),
       getMonth = (\<lambda>d. d mod 12),
       getTime = (\<lambda>d. Some (of_int (daysFromCivil (d div 12) (d mod 12) * 86400000))),
       addMonths = (\<lambda>d i. d + i) \<rparr>"

section \<open>Notions of the specification\<close>

text \<open>The override entry for month \<open>m\<close>: the first entry of \<open>monthlyReturns\<close> whose month
  is \<open>m\<close>, the one \<^verbatim>\<open>find\<close> returns.\<close>

definition overrideFor :: "'d InvestmentConfig \<Rightarrow> nat \<Rightarrow> MonthlyReturn option" where
  "overrideFor config m =
     (case monthlyReturns config of
        None \<Rightarrow> None
      | Some mrs \<Rightarrow> find (\<lambda>r. mr_month r = int m) mrs)"

text \<open>
  The time-weighted return as the specification words it. A period return compares the
  value at the end of a period, less the contribution when there is one, with the value at its
  start, in percent. The return of the current month \<open>m\<close> comes from replaying the step of
  the month stepper from the ending principal of the previous row, with the return rate
  resolved for month \<open>m\<close>, overrides included. The returns of the months before \<open>m\<close> are
  read off the rows, and all are linked geometrically.
\<close>

definition periodReturn_spec :: "'d InvestmentConfig \<Rightarrow> decimal \<Rightarrow> decimal \<Rightarrow> decimal" where
  "periodReturn_spec config startValue endValue =
     (if monthly_contribution (global config) > 0 then
        dec_mul (dec_minus (dec_div (dec_minus endValue (Fin (monthly_contribution (global config))))
                                    startValue) (Fin 1)) (Fin 100)
      else dec_mul (dec_minus (dec_div endValue startValue) (Fin 1)) (Fin 100))"

definition replayedEndValue_spec :: "'d InvestmentConfig \<Rightarrow> decimal \<Rightarrow> nat \<Rightarrow> decimal" where
  "replayedEndValue_spec config prevEnding m =
     (let startingPrinciple' =
            (if monthly_contribution (global config) > 0
             then dec_plus prevEnding (Fin (monthly_contribution (global config)))
             else prevEnding);
          rate = getMonthlyReturnRate config m;
          monthlyReturn = dec_mul startingPrinciple' rate;
          principleAfterReturns = dec_plus startingPrinciple' monthlyReturn;
          monthlyFee = calculateMonthlyFees config principleAfterReturns
      in dec_minus principleAfterReturns monthlyFee)"

definition timeWeightedReturn_spec ::
  "'d InvestmentConfig \<Rightarrow> 'd TableRow list \<Rightarrow> nat \<Rightarrow> decimal" where
  "timeWeightedReturn_spec config rows m =
     linkReturns
       (map (\<lambda>i. periodReturn_spec config (endingPrinciple (rows ! (i - 1)))
                                           (endingPrinciple (rows ! i)))
            [1..<m]
        @ [periodReturn_spec config (endingPrinciple (rows ! (m - 1)))
             (replayedEndValue_spec config (endingPrinciple (rows ! (m - 1))) m)])"


section \<open>Example configurations\<close>

text \<open>Starting principal 100, no contribution, a 12% annual return and one 12% annual fee,
  both applied monthly; \<open>n\<close> is \<open>num_months\<close>.\<close>

definition returnsAndFeesConfig :: "'d \<Rightarrow> 'd \<Rightarrow> int \<Rightarrow> 'd InvestmentConfig" where
  "returnsAndFeesConfig d0 d1 n =
     \<lparr> config_fees = [\<lparr> fee_value = 0.12, fee_applied_time_unit = 12 \<rparr>],
       config_returns = \<lparr> returns_value = 0.12, returns_applied_time_unit = 12 \<rparr>,
       monthlyReturns = None,
       global = \<lparr> start_date = d0, end_date = d1, starting_principle = 100,
                  monthly_contribution = 0, num_months = n \<rparr> \<rparr>"

text \<open>Starting principal 100, no contribution, no fee, a 12% annual return applied monthly,
  one month, and an override of 5 (percent) for month 1.\<close>

definition overrideConfig :: "'d \<Rightarrow> 'd \<Rightarrow> 'd InvestmentConfig" where
  "overrideConfig d0 d1 =
     \<lparr> config_fees = [],
       config_returns = \<lparr> returns_value = 0.12, returns_applied_time_unit = 12 \<rparr>,
       monthlyReturns = Some [\<lparr> mr_month = 1, mr_value = 5, isEmpty = False \<rparr>],
       global = \<lparr> start_date = d0, end_date = d1, starting_principle = 100,
                  monthly_contribution = 0, num_months = 1 \<rparr> \<rparr>"

text \<open>As \<open>overrideConfig\<close>, over three months, with a second override for month 2 that
  carries the empty marker.\<close>

definition twoOverridesConfig :: "'d \<Rightarrow> 'd \<Rightarrow> 'd InvestmentConfig" where
  "twoOverridesConfig d0 d1 =
     \<lparr> config_fees = [],
       config_returns = \<lparr> returns_value = 0.12, returns_applied_time_unit = 12 \<rparr>,
       monthlyReturns = Some [\<lparr> mr_month = 1, mr_value = 5, isEmpty = False \<rparr>,
                              \<lparr> mr_month = 2, mr_value = 7, isEmpty = True \<rparr>],
       global = \<lparr> start_date = d0, end_date = d1, starting_principle = 100,
                  monthly_contribution = 0, num_months = 3 \<rparr> \<rparr>"

text \<open>As \<open>returnsAndFeesConfig\<close>, over two months, with a monthly contribution of -50.\<close>

definition negativeContributionConfig :: "'d \<Rightarrow> 'd \<Rightarrow> 'd InvestmentConfig" where
  "negativeContributionConfig d0 d1 =
     \<lparr> config_fees = [\<lparr> fee_value = 0.12, fee_applied_time_unit = 12 \<rparr>],
       config_returns = \<lparr> returns_value = 0.12, returns_applied_time_unit = 12 \<rparr>,
       monthlyReturns = None,
       global = \<lparr> start_date = d0, end_date = d1, starting_principle = 100,
                  monthly_contribution = - 50, num_months = 2 \<rparr> \<rparr>"


text \<open>No contribution, no default return, one fee applied monthly; the starting principal, the
  annual fee rate, the overrides and the number of months are free.\<close>

definition monthlyFeeConfig ::
  "'d \<Rightarrow> 'd \<Rightarrow> rat \<Rightarrow> rat \<Rightarrow> MonthlyReturn list option \<Rightarrow> int \<Rightarrow> 'd InvestmentConfig" where
  "monthlyFeeConfig d0 d1 sp feeValue overrides n =
     \<lparr> config_fees = [\<lparr> fee_value = feeValue, fee_applied_time_unit = 12 \<rparr>],
       config_returns = \<lparr> returns_value = 0, returns_applied_time_unit = 12 \<rparr>,
       monthlyReturns = overrides,
       global = \<lparr> start_date = d0, end_date = d1, starting_principle = sp,
                  monthly_contribution = 0, num_months = n \<rparr> \<rparr>"

section \<open>The calculator never throws\<close>

lemma row_at_nth: "i < length t \<Longrightarrow> row_at t (int i) = Inr (t ! i)"
  by (simp add: row_at_def)

lemma row_at_pred: "1 \<le> m \<Longrightarrow> m \<le> length t \<Longrightarrow> row_at t (int m - 1) = Inr (t ! (m - 1))"
  by (simp add: row_at_def nat_diff_distrib') 

lemma calculateSinglePeriodReturn_ok:
  "1 \<le> i \<Longrightarrow> i < length t \<Longrightarrow> \<exists>r. calculateSinglePeriodReturn config t i = Inr r"
  by (simp add: calculateSinglePeriodReturn_def row_at_pred Let_def)

lemma periodReturnsLoop_ok:
  "(\<And>i. i \<in> set is \<Longrightarrow> 1 \<le> i \<and> i < length t) \<Longrightarrow> \<exists>rs. periodReturnsLoop config t is = Inr rs"
proof (induction "is")
  case Nil
  then show ?case by simp
next
  case (Cons i "is")
  obtain r where r: "calculateSinglePeriodReturn config t i = Inr r"
    using calculateSinglePeriodReturn_ok[of i t config] Cons.prems[of i] by auto
  obtain rs where rs: "periodReturnsLoop config t is = Inr rs"
    using Cons by auto
  show ?case by (simp add: r rs)
qed

lemma calculateTimeWeightedReturn_ok:
  assumes "m < length t"
  shows "\<exists>r. calculateTimeWeightedReturn config t m = Inr r"
proof (cases "m = 0")
  case True
  then show ?thesis by (simp add: calculateTimeWeightedReturn_def)
next
  case False
  obtain rs where rs: "periodReturnsLoop config t [Suc 0..<m] = Inr rs"
    using periodReturnsLoop_ok[of "[1..<m]" t config] assms by auto
  have "row_at t (int m - 1) = Inr (t ! (m - 1))"
    using False assms by (simp add: row_at_pred)
  then show ?thesis using False
    by (simp add: calculateTimeWeightedReturn_def rs Let_def)
qed

lemma contributionsLoop_lengths:
  "length (fst acc) = length (snd acc) \<Longrightarrow>
   length (fst (contributionsLoop rt config is acc)) = length (snd (contributionsLoop rt config is acc))"
  by (induction rt config "is" acc rule: contributionsLoop.induct) auto

lemma cashFlowSchedule_lengths:
  assumes "cashFlowSchedule rt config t m = Inr (cashFlows, dates)"
  shows "length cashFlows = length dates"
proof -
  obtain c d where cd: "contributionsLoop rt config [1..<Suc m]
             ([js_neg rt (toNumber rt (Fin (starting_principle (global config))))],
              [start_date (global config)]) = (c, d)"
    by (cases "contributionsLoop rt config [1..<Suc m]
             ([js_neg rt (toNumber rt (Fin (starting_principle (global config))))],
              [start_date (global config)])") 
  have "length c = length d"
    using contributionsLoop_lengths[of "([js_neg rt (toNumber rt (Fin (starting_principle (global config))))],
              [start_date (global config)])" rt config "[1..<Suc m]"] cd by simp
  then show ?thesis using assms cd
    by (auto simp: cashFlowSchedule_def split: if_splits sum.splits)
qed

lemma cashFlowSchedule_ok:
  assumes "m < length t"
  shows "\<exists>s. cashFlowSchedule rt config t m = Inr s"
  using assms by (simp add: cashFlowSchedule_def split: prod.splits)

lemma calculateImprovedIRR_ok:
  "length cashFlows = length dates \<Longrightarrow> \<exists>r. calculateImprovedIRR rt cashFlows dates = Inr r"
  by (simp add: calculateImprovedIRR_def calculateImprovedIRR_traced_def Let_def split: prod.splits)

lemma calculateMoneyWeightedReturn_ok:
  assumes "m < length t"
  shows "\<exists>r. calculateMoneyWeightedReturn rt config t m = Inr r"
proof (cases "m = 0 \<or> monthly_contribution (global config) = 0")
  case True
  then show ?thesis using assms
    by (auto simp: calculateMoneyWeightedReturn_def row_at_pred Let_def)
next
  case False
  obtain c d where s: "cashFlowSchedule rt config t m = Inr (c, d)"
    using cashFlowSchedule_ok[OF assms, of rt config] by auto
  obtain r where "calculateImprovedIRR rt c d = Inr r"
    using calculateImprovedIRR_ok[OF cashFlowSchedule_lengths[OF s]] by auto
  then show ?thesis using False s
    by (simp add: calculateMoneyWeightedReturn_def)
qed


lemma calculateMonth_unfold:
  "calculateMonth rt config t m =
     (case row_at t (int m - 1) of
        Inl e \<Rightarrow> Inl e
      | Inr prevRow \<Rightarrow>
          (case calculateTimeWeightedReturn config (t @ [pushedRow rt config prevRow m]) m of
             Inl e \<Rightarrow> Inl e
           | Inr twr \<Rightarrow>
               (case calculateMoneyWeightedReturn rt config (t @ [pushedRow rt config prevRow m]) m of
                  Inl e \<Rightarrow> Inl e
                | Inr mwr \<Rightarrow>
                    if m < length (t @ [pushedRow rt config prevRow m]) then
                      Inr ((t @ [pushedRow rt config prevRow m])
                             [m := ((t @ [pushedRow rt config prevRow m]) ! m)
                                \<lparr> timeWeightedReturn := twr, moneyWeightedReturn := mwr \<rparr>])
                    else Inl UndefinedRow)))"
  unfolding calculateMonth_def pushedRow_def addTableRow_def Let_def
  by (rule refl)

lemma calculateMonth_eq:
  assumes "length t = m" and "1 \<le> m"
  shows "\<exists>twr mwr.
           calculateTimeWeightedReturn config (t @ [pushedRow rt config (t ! (m - 1)) m]) m = Inr twr \<and>
           calculateMoneyWeightedReturn rt config (t @ [pushedRow rt config (t ! (m - 1)) m]) m = Inr mwr \<and>
           calculateMonth rt config t m =
             Inr (t @ [(pushedRow rt config (t ! (m - 1)) m)
                         \<lparr> timeWeightedReturn := twr, moneyWeightedReturn := mwr \<rparr>])"
proof -
  let ?t1 = "t @ [pushedRow rt config (t ! (m - 1)) m]"
  have len: "m < length ?t1" using assms by simp
  obtain twr where twr: "calculateTimeWeightedReturn config ?t1 m = Inr twr"
    using calculateTimeWeightedReturn_ok[OF len] by blast
  obtain mwr where mwr: "calculateMoneyWeightedReturn rt config ?t1 m = Inr mwr"
    using calculateMoneyWeightedReturn_ok[OF len] by blast
  have prev: "row_at t (int m - 1) = Inr (t ! (m - 1))"
    using assms by (simp add: row_at_pred)
  have "calculateMonth rt config t m =
        Inr (?t1[m := (?t1 ! m) \<lparr> timeWeightedReturn := twr, moneyWeightedReturn := mwr \<rparr>])"
    using len by (simp only: calculateMonth_unfold prev twr mwr sum.case if_True)
  moreover have "?t1[m := (?t1 ! m) \<lparr> timeWeightedReturn := twr, moneyWeightedReturn := mwr \<rparr>]
        = t @ [(pushedRow rt config (t ! (m - 1)) m) \<lparr> timeWeightedReturn := twr, moneyWeightedReturn := mwr \<rparr>]"
    unfolding assms(1)[symmetric] by simp
  ultimately show ?thesis using twr mwr by simp
qed


lemma calculateAllMonths_invariant:
  assumes "Inv t" and "length t = m" and "1 \<le> m"
    and step: "\<And>t twr mwr. Inv t \<Longrightarrow> 1 \<le> length t \<Longrightarrow> int (length t) \<le> monthDiff \<Longrightarrow>
        calculateTimeWeightedReturn config
          (t @ [pushedRow rt config (t ! (length t - 1)) (length t)]) (length t) = Inr twr \<Longrightarrow>
        calculateMoneyWeightedReturn rt config
          (t @ [pushedRow rt config (t ! (length t - 1)) (length t)]) (length t) = Inr mwr \<Longrightarrow>
        Inv (t @ [(pushedRow rt config (t ! (length t - 1)) (length t))
                    \<lparr> timeWeightedReturn := twr, moneyWeightedReturn := mwr \<rparr>])"
  shows "\<exists>t'. calculateAllMonths rt config monthDiff m t = Inr t' \<and> Inv t' \<and> take m t' = t \<and>
              length t' = (if int m \<le> monthDiff then nat monthDiff + 1 else m)"
  using assms
proof (induction rt config monthDiff m t rule: calculateAllMonths.induct)
  case (1 rt config monthDiff m t)
  show ?case
  proof (cases "int m \<le> monthDiff")
    case False
    then show ?thesis using "1.prems" by simp
  next
    case True
    obtain twr mwr where
      twr: "calculateTimeWeightedReturn config (t @ [pushedRow rt config (t ! (m - 1)) m]) m = Inr twr" and
      mwr: "calculateMoneyWeightedReturn rt config (t @ [pushedRow rt config (t ! (m - 1)) m]) m = Inr mwr" and
      cm: "calculateMonth rt config t m =
             Inr (t @ [(pushedRow rt config (t ! (m - 1)) m)
                         \<lparr> timeWeightedReturn := twr, moneyWeightedReturn := mwr \<rparr>])"
      using calculateMonth_eq[OF "1.prems"(2,3), of config rt] by blast
    let ?t1 = "t @ [(pushedRow rt config (t ! (m - 1)) m)
                         \<lparr> timeWeightedReturn := twr, moneyWeightedReturn := mwr \<rparr>]"
    have inv1: "Inv ?t1"
      using "1.prems"(4)[of t twr mwr] "1.prems"(1-3) True twr mwr by simp
    have len1: "length ?t1 = Suc m" using "1.prems" by simp
    obtain t' where t': "calculateAllMonths rt config monthDiff (Suc m) ?t1 = Inr t'" "Inv t'"
      "take (Suc m) t' = ?t1" "length t' = (if int (Suc m) \<le> monthDiff then nat monthDiff + 1 else Suc m)"
      using "1.IH"[OF True cm inv1 len1 _ "1.prems"(4)] by auto
    have "calculateAllMonths rt config monthDiff m t = Inr t'"
      using True cm t'(1) by simp
    moreover have "take m t' = t"
    proof -
      have "take m (take (Suc m) t') = take m ?t1" using t'(3) by simp
      then show ?thesis using "1.prems"(2) by (simp add: min_def)
    qed
    moreover have "length t' = nat monthDiff + 1"
      using t'(4) True by (auto split: if_splits)
    ultimately show ?thesis using t'(2) True by simp
  qed
qed

lemma pushedRow_month [simp]: "month (pushedRow rt config prevRow m) = m"
  by (simp add: pushedRow_def Let_def)

lemma calculate_rows:
  "\<exists>rows. calculate rt config = Inr rows \<and>
     length rows = Suc (nat (calculateMonthDifference rt config)) \<and>
     rows ! 0 = initializeTable config ! 0 \<and>
     (\<forall>i. Suc i < length rows \<longrightarrow>
        (\<exists>twr mwr.
           calculateTimeWeightedReturn config
             (take (Suc i) rows @ [pushedRow rt config (rows ! i) (Suc i)]) (Suc i) = Inr twr \<and>
           calculateMoneyWeightedReturn rt config
             (take (Suc i) rows @ [pushedRow rt config (rows ! i) (Suc i)]) (Suc i) = Inr mwr \<and>
           rows ! Suc i = (pushedRow rt config (rows ! i) (Suc i))
                            \<lparr> timeWeightedReturn := twr, moneyWeightedReturn := mwr \<rparr>))"
proof -
  let ?P = "\<lambda>(t :: 'a TableRow list) i. (\<exists>twr mwr.
           calculateTimeWeightedReturn config
             (take (Suc i) t @ [pushedRow rt config (t ! i) (Suc i)]) (Suc i) = Inr twr \<and>
           calculateMoneyWeightedReturn rt config
             (take (Suc i) t @ [pushedRow rt config (t ! i) (Suc i)]) (Suc i) = Inr mwr \<and>
           t ! Suc i = (pushedRow rt config (t ! i) (Suc i))
                            \<lparr> timeWeightedReturn := twr, moneyWeightedReturn := mwr \<rparr>)"
  let ?Inv = "\<lambda>t :: 'a TableRow list. t \<noteq> [] \<and> t ! 0 = initializeTable config ! 0 \<and>
                 (\<forall>i. Suc i < length t \<longrightarrow> ?P t i)"
  have "\<exists>t'. calculateAllMonths rt config (calculateMonthDifference rt config) 1 (initializeTable config) = Inr t' \<and>
          ?Inv t' \<and> take 1 t' = initializeTable config \<and>
          length t' = (if int 1 \<le> calculateMonthDifference rt config
                       then nat (calculateMonthDifference rt config) + 1 else 1)"
  proof (rule calculateAllMonths_invariant)
    show "?Inv (initializeTable config)" by (simp add: initializeTable_def)
    show "length (initializeTable config) = 1" by (simp add: initializeTable_def)
    show "(1::nat) \<le> 1" by simp
  next
    fix t :: "'a TableRow list" and twr mwr
    assume inv: "?Inv t" and len: "1 \<le> length t"
      and twr: "calculateTimeWeightedReturn config
          (t @ [pushedRow rt config (t ! (length t - 1)) (length t)]) (length t) = Inr twr"
      and mwr: "calculateMoneyWeightedReturn rt config
          (t @ [pushedRow rt config (t ! (length t - 1)) (length t)]) (length t) = Inr mwr"
    let ?r = "(pushedRow rt config (t ! (length t - 1)) (length t))
                    \<lparr> timeWeightedReturn := twr, moneyWeightedReturn := mwr \<rparr>"
    have "?P (t @ [?r]) i" if "Suc i < length (t @ [?r])" for i
    proof (cases "Suc i < length t")
      case True
      then have "?P t i" using inv by blast
      moreover have "take (Suc i) (t @ [?r]) = take (Suc i) t" using True by simp
      moreover have "(t @ [?r]) ! i = t ! i" "(t @ [?r]) ! Suc i = t ! Suc i"
        using True by (simp_all add: nth_append)
      ultimately show ?thesis by simp
    next
      case False
      then have i: "length t = Suc i" using that by simp
      have a: "take (Suc i) (t @ [?r]) = t" using i by simp
      have b: "(t @ [?r]) ! i = t ! (length t - 1)"
        using i by (simp add: nth_append)
      have c: "(t @ [?r]) ! Suc i = ?r"
        using i by (metis nth_append_length)
      show ?thesis
        unfolding a b c using twr mwr unfolding i by blast
    qed
    moreover have "(t @ [?r]) ! 0 = t ! 0" using len by (cases t) simp_all
    ultimately show "?Inv (t @ [?r])" using inv by simp
  qed
  then show ?thesis by (auto simp: calculate_def split: if_splits)
qed

lemma calculate_prefix:
  "\<exists>rows. calculate rt config = Inr rows \<and> take 1 rows = initializeTable config \<and>
     length rows = (if 1 \<le> calculateMonthDifference rt config
                    then nat (calculateMonthDifference rt config) + 1 else 1) \<and>
     map month rows = [0..<length rows]"
proof -
  let ?Inv = "\<lambda>t :: 'a TableRow list. map month t = [0..<length t]"
  have "\<exists>t'. calculateAllMonths rt config (calculateMonthDifference rt config) 1 (initializeTable config) = Inr t' \<and>
          ?Inv t' \<and> take 1 t' = initializeTable config \<and>
          length t' = (if int 1 \<le> calculateMonthDifference rt config
                       then nat (calculateMonthDifference rt config) + 1 else 1)"
  proof (rule calculateAllMonths_invariant)
    show "?Inv (initializeTable config)" by (simp add: initializeTable_def)
    show "length (initializeTable config) = 1" by (simp add: initializeTable_def)
    show "(1::nat) \<le> 1" by simp
  next
    fix t :: "'a TableRow list" and twr mwr
    assume "?Inv t"
    then show "?Inv (t @ [(pushedRow rt config (t ! (length t - 1)) (length t))
                    \<lparr> timeWeightedReturn := twr, moneyWeightedReturn := mwr \<rparr>])"
      by simp
  qed
  then show ?thesis by (auto simp: calculate_def)
qed

section \<open>Row 0\<close>

text \<open>
  C9. For every configuration the calculation succeeds and row 0 of the result is the identity
  row: its starting and its ending principal are the configured starting principal, and its
  returns, fees, cumulative fees, fee percentage and all seven rate metrics (the time-weighted
  and the money-weighted return among them) are zero.
\<close>

theorem row0_identity:
  "\<exists>rows. calculate rt config = Inr rows \<and> rows \<noteq> [] \<and>
     month (rows ! 0) = 0 \<and>
     startingPrinciple (rows ! 0) = Fin (starting_principle (global config)) \<and>
     endingPrinciple (rows ! 0) = Fin (starting_principle (global config)) \<and>
     returns (rows ! 0) = Fin 0 \<and>
     fees (rows ! 0) = Fin 0 \<and>
     cumulativeFees (rows ! 0) = Fin 0 \<and>
     feesPercentage (rows ! 0) = Fin 0 \<and>
     momGrossReturnRate (rows ! 0) = Fin 0 \<and>
     totalGrossReturnRate (rows ! 0) = Fin 0 \<and>
     momNetReturnRate (rows ! 0) = Fin 0 \<and>
     momNetExclContribReturnRate (rows ! 0) = Fin 0 \<and>
     totalNetReturnRate (rows ! 0) = Fin 0 \<and>
     timeWeightedReturn (rows ! 0) = Fin 0 \<and>
     moneyWeightedReturn (rows ! 0) = Fin 0"
proof -
  obtain rows where rows: "calculate rt config = Inr rows"
    and pre: "take 1 rows = initializeTable config"
    using calculate_prefix[of rt config] by blast
  have ne: "rows \<noteq> []" using pre by (auto simp: initializeTable_def)
  have r0: "rows ! 0 = initializeTable config ! 0"
    using pre by (metis nth_take zero_less_one)
  show ?thesis
    by (rule exI[of _ rows]) (simp add: rows ne r0 initializeTable_def)
qed

section \<open>The month count and the number of rows\<close>

text \<open>
  C6. The resolved month count is \<open>num_months\<close> when that is positive and otherwise
  \<open>(endYear - startYear) * 12 + (endMonth - startMonth)\<close>. The calculation never fails; the
  months of the rows it returns are 0, 1, ... up to the month count in this order, which makes
  month count + 1 rows when the count is not negative; when the count is zero or negative the
  result is row 0 alone.
\<close>

theorem month_count_and_rows:
  "calculateMonthDifference rt config =
     (if num_months (global config) > 0 then num_months (global config)
      else (getFullYear rt (end_date (global config)) - getFullYear rt (start_date (global config))) * 12
           + (getMonth rt (end_date (global config)) - getMonth rt (start_date (global config)))) \<and>
   (\<exists>rows. calculate rt config = Inr rows \<and>
      map month rows = [0..<Suc (nat (calculateMonthDifference rt config))] \<and>
      (0 \<le> calculateMonthDifference rt config \<longrightarrow>
         int (length rows) = calculateMonthDifference rt config + 1) \<and>
      (calculateMonthDifference rt config \<le> 0 \<longrightarrow> rows = initializeTable config))"
proof -
  obtain rows where rows: "calculate rt config = Inr rows"
    and pre: "take 1 rows = initializeTable config"
    and len: "length rows = (if 1 \<le> calculateMonthDifference rt config
                    then nat (calculateMonthDifference rt config) + 1 else 1)"
    and months: "map month rows = [0..<length rows]"
    using calculate_prefix[of rt config] by blast
  have l2: "length rows = Suc (nat (calculateMonthDifference rt config))"
    using len by (auto split: if_splits)
  have "calculateMonthDifference rt config \<le> 0 \<Longrightarrow> rows = initializeTable config"
  proof -
    assume "calculateMonthDifference rt config \<le> 0"
    then have "length rows = 1" using len by simp
    then have "take 1 rows = rows" by simp
    then show ?thesis using pre by simp
  qed
  then show ?thesis
    using rows months l2 by (auto simp: calculateMonthDifference_def Let_def)
qed

theorem month_count_and_rows_witness:
  "calculateMonthDifference exact_runtime (returnsAndFeesConfig 24288 24290 0) = 2 \<and>
   (\<exists>rows. calculate exact_runtime (returnsAndFeesConfig 24288 24290 0) = Inr rows \<and>
      map month rows = [0, 1, 2] \<and> length rows = 3) \<and>
   calculateMonthDifference exact_runtime (returnsAndFeesConfig 24290 24288 0) = - 2 \<and>
   calculate exact_runtime (returnsAndFeesConfig 24290 24288 0)
     = Inr (initializeTable (returnsAndFeesConfig 24290 24288 0))"
proof -
  have a: "calculateMonthDifference exact_runtime (returnsAndFeesConfig 24288 24290 0) = 2"
    by (simp add: calculateMonthDifference_def returnsAndFeesConfig_def exact_runtime_def)
  have b: "calculateMonthDifference exact_runtime (returnsAndFeesConfig 24290 24288 0) = - 2"
    by (simp add: calculateMonthDifference_def returnsAndFeesConfig_def exact_runtime_def)
  have c: "[0..<Suc (nat 2)] = [0, 1, 2]" by (simp add: upt_rec)
  show ?thesis
    using month_count_and_rows[of exact_runtime "returnsAndFeesConfig 24288 24290 0"]
      month_count_and_rows[of exact_runtime "returnsAndFeesConfig 24290 24288 0"]
    unfolding a b c by auto
qed

section \<open>Returns, then fees\<close>

text \<open>
  C3. With starting principal 100, no contribution, a 12% annual return and one 12% annual
  fee, both with \<open>applied_time_unit\<close> 12, and at least one month, row 1 starts at 100, has
  return exactly 1, fee exactly 1.01, which is the fee computed on 101, the principal after the
  return, and ending principal exactly 99.99.
\<close>

theorem returns_then_fees_row1:
  assumes "1 \<le> n"
  shows "\<exists>rows. calculate rt (returnsAndFeesConfig d0 d1 n) = Inr rows \<and> 1 < length rows \<and>
           startingPrinciple (rows ! 1) = Fin 100 \<and>
           returns (rows ! 1) = Fin 1 \<and>
           fees (rows ! 1) = Fin 1.01 \<and>
           fees (rows ! 1) = calculateMonthlyFees (returnsAndFeesConfig d0 d1 n) (Fin 101) \<and>
           endingPrinciple (rows ! 1) = Fin 99.99"
proof -
  let ?c = "returnsAndFeesConfig d0 d1 n"
  obtain rows where rows: "calculate rt ?c = Inr rows"
    and len: "length rows = Suc (nat (calculateMonthDifference rt ?c))"
    and r0: "rows ! 0 = initializeTable ?c ! 0"
    and step: "\<forall>i. Suc i < length rows \<longrightarrow>
        (\<exists>twr mwr. rows ! Suc i = (pushedRow rt ?c (rows ! i) (Suc i))
                            \<lparr> timeWeightedReturn := twr, moneyWeightedReturn := mwr \<rparr>)"
    using calculate_rows[of rt ?c] by blast
  have md: "calculateMonthDifference rt ?c = n"
    using assms by (simp add: calculateMonthDifference_def returnsAndFeesConfig_def)
  have l1: "Suc 0 < length rows" using len md assms by simp
  then obtain twr mwr where r1: "rows ! Suc 0 = (pushedRow rt ?c (rows ! 0) (Suc 0))
                            \<lparr> timeWeightedReturn := twr, moneyWeightedReturn := mwr \<rparr>"
    using step by blast
  have rate: "getMonthlyReturnRate ?c (Suc 0) = Fin (1 / 100)"
    by (simp add: getMonthlyReturnRate_def calculateDefaultMonthlyReturnRate_def returnsAndFeesConfig_def)
  have fee: "calculateMonthlyFees ?c (Fin 101) = Fin (101 / 100)"
    by (simp add: calculateMonthlyFees_def returnsAndFeesConfig_def)
  have g: "monthly_contribution (global ?c) = 0" "starting_principle (global ?c) = 100"
    by (simp_all add: returnsAndFeesConfig_def)
  have p: "endingPrinciple (rows ! 0) = Fin 100"
    by (simp add: r0 initializeTable_def g)
  show ?thesis
    apply (rule exI[of _ rows])
    using l1 by (simp add: rows r1 pushedRow_def Let_def rate fee g p)
qed

theorem returns_then_fees_row1_witness:
  "(1::int) \<le> 12 \<and>
   (\<exists>rows. calculate exact_runtime (returnsAndFeesConfig 24288 24300 12) = Inr rows \<and> 1 < length rows \<and>
           startingPrinciple (rows ! 1) = Fin 100 \<and>
           returns (rows ! 1) = Fin 1 \<and>
           fees (rows ! 1) = Fin 1.01 \<and>
           fees (rows ! 1) = calculateMonthlyFees (returnsAndFeesConfig (24288::int) 24300 12) (Fin 101) \<and>
           endingPrinciple (rows ! 1) = Fin 99.99)"
proof -
  have h: "(1::int) \<le> 12" by simp
  show ?thesis by (rule conjI[OF h returns_then_fees_row1[OF h]])
qed

section \<open>The return rate of a step\<close>

lemma pushedRow_returns:
  "returns ((pushedRow rt config prevRow m) \<lparr> timeWeightedReturn := twr, moneyWeightedReturn := mwr \<rparr>)
     = dec_mul (startingPrinciple ((pushedRow rt config prevRow m)
                   \<lparr> timeWeightedReturn := twr, moneyWeightedReturn := mwr \<rparr>))
               (getMonthlyReturnRate config m)"
  "momGrossReturnRate ((pushedRow rt config prevRow m)
       \<lparr> timeWeightedReturn := twr, moneyWeightedReturn := mwr \<rparr>)
     = dec_mul (getMonthlyReturnRate config m) (Fin 100)"
  by (simp_all add: pushedRow_def Let_def)

text \<open>
  C7. The return rate of step \<open>m\<close> is the default monthly rate
  \<open>returns.value / returns.applied_time_unit\<close> when month \<open>m\<close> has no override entry, exactly zero
  when its entry carries the empty marker, whatever the default, and the entry's percentage
  divided by 100 otherwise. It is the rate the step uses: the return of row \<open>m\<close> is its
  starting principal times this rate, and its gross month-on-month rate is this rate times 100.
\<close>

theorem step_return_rate:
  "(overrideFor config m = None \<longrightarrow>
      getMonthlyReturnRate config m =
        dec_div (Fin (returns_value (config_returns config)))
                (Fin (returns_applied_time_unit (config_returns config)))) \<and>
   (\<forall>r. overrideFor config m = Some r \<and> isEmpty r \<longrightarrow> getMonthlyReturnRate config m = Fin 0) \<and>
   (\<forall>r. overrideFor config m = Some r \<and> \<not> isEmpty r \<longrightarrow>
      getMonthlyReturnRate config m = Fin (mr_value r / 100)) \<and>
   (\<exists>rows. calculate rt config = Inr rows \<and>
      (1 \<le> m \<and> m < length rows \<longrightarrow>
         returns (rows ! m) = dec_mul (startingPrinciple (rows ! m)) (getMonthlyReturnRate config m) \<and>
         momGrossReturnRate (rows ! m) = dec_mul (getMonthlyReturnRate config m) (Fin 100)))"
proof -
  have a: "overrideFor config m = None \<longrightarrow>
      getMonthlyReturnRate config m =
        dec_div (Fin (returns_value (config_returns config)))
                (Fin (returns_applied_time_unit (config_returns config)))"
    by (auto simp: overrideFor_def getMonthlyReturnRate_def calculateDefaultMonthlyReturnRate_def
             split: option.splits)
  have b: "\<forall>r. overrideFor config m = Some r \<and> isEmpty r \<longrightarrow> getMonthlyReturnRate config m = Fin 0"
    by (auto simp: overrideFor_def getMonthlyReturnRate_def split: option.splits)
  have c: "\<forall>r. overrideFor config m = Some r \<and> \<not> isEmpty r \<longrightarrow>
      getMonthlyReturnRate config m = Fin (mr_value r / 100)"
    by (auto simp: overrideFor_def getMonthlyReturnRate_def split: option.splits)
  obtain rows where rows: "calculate rt config = Inr rows"
    and step: "\<forall>i. Suc i < length rows \<longrightarrow>
        (\<exists>twr mwr. rows ! Suc i = (pushedRow rt config (rows ! i) (Suc i))
                            \<lparr> timeWeightedReturn := twr, moneyWeightedReturn := mwr \<rparr>)"
    using calculate_rows[of rt config] by blast
  have d: "returns (rows ! m) = dec_mul (startingPrinciple (rows ! m)) (getMonthlyReturnRate config m) \<and>
         momGrossReturnRate (rows ! m) = dec_mul (getMonthlyReturnRate config m) (Fin 100)"
    if m1: "1 \<le> m" and ml: "m < length rows"
  proof -
    obtain i where i: "m = Suc i" using m1 by (cases m) auto
    obtain twr mwr where "rows ! Suc i = (pushedRow rt config (rows ! i) (Suc i))
                            \<lparr> timeWeightedReturn := twr, moneyWeightedReturn := mwr \<rparr>"
      using step ml i by blast
    then show ?thesis unfolding i by (simp only: pushedRow_returns)
  qed
  show ?thesis using a b c rows d by blast
qed

theorem step_return_rate_witness:
  "overrideFor (twoOverridesConfig (0::int) 0) 1 = Some \<lparr> mr_month = 1, mr_value = 5, isEmpty = False \<rparr> \<and>
   getMonthlyReturnRate (twoOverridesConfig (0::int) 0) 1 = Fin (5 / 100) \<and>
   overrideFor (twoOverridesConfig (0::int) 0) 2 = Some \<lparr> mr_month = 2, mr_value = 7, isEmpty = True \<rparr> \<and>
   getMonthlyReturnRate (twoOverridesConfig (0::int) 0) 2 = Fin 0 \<and>
   overrideFor (twoOverridesConfig (0::int) 0) 3 = None \<and>
   getMonthlyReturnRate (twoOverridesConfig (0::int) 0) 3 = dec_div (Fin 0.12) (Fin 12) \<and>
   (\<exists>rows. calculate exact_runtime (twoOverridesConfig 0 0) = Inr rows \<and> 1 < length rows \<and>
      returns (rows ! 1) = dec_mul (startingPrinciple (rows ! 1)) (Fin (5 / 100)))"
proof -
  let ?c = "twoOverridesConfig (0::int) 0"
  have o1: "overrideFor ?c 1 = Some \<lparr> mr_month = 1, mr_value = 5, isEmpty = False \<rparr>"
    by (simp add: overrideFor_def twoOverridesConfig_def)
  have o2: "overrideFor ?c 2 = Some \<lparr> mr_month = 2, mr_value = 7, isEmpty = True \<rparr>"
    by (simp add: overrideFor_def twoOverridesConfig_def)
  have o3: "overrideFor ?c 3 = None"
    by (simp add: overrideFor_def twoOverridesConfig_def)
  have r1: "getMonthlyReturnRate ?c 1 = Fin (5 / 100)"
    using step_return_rate[of ?c 1 exact_runtime] o1 by simp
  have r2: "getMonthlyReturnRate ?c 2 = Fin 0"
    using step_return_rate[of ?c 2 exact_runtime] o2 by simp
  have r3: "getMonthlyReturnRate ?c 3 = dec_div (Fin 0.12) (Fin 12)"
    using step_return_rate[of ?c 3 exact_runtime] o3 by (simp add: twoOverridesConfig_def)
  obtain rows where rows: "calculate exact_runtime ?c = Inr rows"
    and row: "1 \<le> (1::nat) \<and> 1 < length rows \<longrightarrow>
         returns (rows ! 1) = dec_mul (startingPrinciple (rows ! 1)) (getMonthlyReturnRate ?c 1)"
    using step_return_rate[of ?c 1 exact_runtime] by blast
  obtain rows' where rows': "calculate exact_runtime ?c = Inr rows'"
    and len: "length rows' = Suc (nat (calculateMonthDifference exact_runtime ?c))"
    using calculate_rows[of exact_runtime ?c] by blast
  have "calculateMonthDifference exact_runtime ?c = 3"
    by (simp add: calculateMonthDifference_def twoOverridesConfig_def)
  then have "1 < length rows" using rows rows' len by simp
  then show ?thesis using o1 o2 o3 r1 r2 r3 rows row by auto
qed

section \<open>The solver\<close>

text \<open>One pass through the loop body: the two early returns, the \<^verbatim>\<open>break\<close>, and otherwise the
  next pass with the new rate bounded to the interval from -0.99 to 100.\<close>

lemma irrLoop_pass:
  assumes "iteration < 100"
  shows "irrLoop rt cashFlows yearFractions iteration rate =
          (if npvConverged rt cashFlows yearFractions rate then (rate, Suc iteration)
           else if derivativeNearZero rt cashFlows yearFractions rate then (rate, Suc iteration)
           else if rateConverged rt cashFlows yearFractions rate
                then (newRate rt cashFlows yearFractions rate, Suc iteration)
           else irrLoop rt cashFlows yearFractions (Suc iteration)
                  (boundRate rt (newRate rt cashFlows yearFractions rate)))"
proof -
  obtain npv derivative where
    nd: "calculateNPVAndDerivative rt cashFlows yearFractions rate = (npv, derivative)"
    by fastforce
  show ?thesis
    by (rule trans[OF irrLoop.simps])
       (simp add: assms nd npvConverged_def derivativeNearZero_def rateConverged_def newRate_def
          boundRate_def Let_def)
qed

lemma irrLoop_exhausted: "irrLoop rt cashFlows yearFractions 100 rate = (rate, 100)"
  by (rule trans[OF irrLoop.simps]) simp

lemma irrLoop_unfold:
  assumes "iteration < 100"
  shows "(\<exists>r. irrLoop rt cashFlows yearFractions iteration rate = (r, Suc iteration)) \<or>
         (\<exists>rate'. irrLoop rt cashFlows yearFractions iteration rate =
                    irrLoop rt cashFlows yearFractions (Suc iteration) rate')"
  using irrLoop_pass[OF assms, of rt cashFlows yearFractions rate] by (auto split: if_splits)

lemma irrLoop_count:
  "iteration \<le> 100 \<Longrightarrow>
   iteration \<le> snd (irrLoop rt cashFlows yearFractions iteration rate) \<and>
   snd (irrLoop rt cashFlows yearFractions iteration rate) \<le> 100 \<and>
   (iteration < 100 \<longrightarrow> Suc iteration \<le> snd (irrLoop rt cashFlows yearFractions iteration rate))"
proof (induction "100 - iteration" arbitrary: iteration rate)
  case 0
  then have "iteration = 100" by simp
  then show ?case by (subst (1 2) irrLoop.simps) simp
next
  case (Suc k)
  then have lt: "iteration < 100" by simp
  have k: "k = 100 - Suc iteration" using Suc.hyps(2) by simp
  from irrLoop_unfold[OF lt, of rt cashFlows yearFractions rate]
  show ?case
  proof
    assume "\<exists>r. irrLoop rt cashFlows yearFractions iteration rate = (r, Suc iteration)"
    then show ?thesis using lt by auto
  next
    assume "\<exists>rate'. irrLoop rt cashFlows yearFractions iteration rate =
                    irrLoop rt cashFlows yearFractions (Suc iteration) rate'"
    then obtain rate' where e: "irrLoop rt cashFlows yearFractions iteration rate =
                    irrLoop rt cashFlows yearFractions (Suc iteration) rate'" by blast
    have "Suc iteration \<le> snd (irrLoop rt cashFlows yearFractions (Suc iteration) rate') \<and>
          snd (irrLoop rt cashFlows yearFractions (Suc iteration) rate') \<le> 100"
      using Suc.hyps(1)[OF k, of rate'] lt by simp
    then show ?thesis unfolding e by simp
  qed
qed

lemma boundRate_range:
  "boundRate rt rate = js_lit rt (- 0.99) \<or> boundRate rt rate = js_lit rt 100 \<or>
   (boundRate rt rate = rate \<and> \<not> js_lt rt rate (js_lit rt (- 0.99)) \<and>
    \<not> js_gt rt rate (js_lit rt 100))"
  by (simp add: boundRate_def Let_def)

lemma irrLoop_trace:
  assumes "iteration < 100"
  shows "\<exists>rs result.
           irrLoop rt cashFlows yearFractions iteration rate0 = (result, iteration + length rs) \<and>
           1 \<le> length rs \<and> iteration + length rs \<le> 100 \<and> rs ! 0 = rate0 \<and>
           (\<forall>k. Suc k < length rs \<longrightarrow>
              passContinues rt cashFlows yearFractions (rs ! k) \<and>
              rs ! Suc k = boundRate rt (newRate rt cashFlows yearFractions (rs ! k))) \<and>
           ((npvConverged rt cashFlows yearFractions (last rs) \<and> result = last rs) \<or>
            (\<not> npvConverged rt cashFlows yearFractions (last rs) \<and>
             derivativeNearZero rt cashFlows yearFractions (last rs) \<and> result = last rs) \<or>
            (\<not> npvConverged rt cashFlows yearFractions (last rs) \<and>
             \<not> derivativeNearZero rt cashFlows yearFractions (last rs) \<and>
             rateConverged rt cashFlows yearFractions (last rs) \<and>
             result = newRate rt cashFlows yearFractions (last rs)) \<or>
            (passContinues rt cashFlows yearFractions (last rs) \<and>
             iteration + length rs = 100 \<and>
             result = boundRate rt (newRate rt cashFlows yearFractions (last rs))))"
  using assms
proof (induction "100 - iteration" arbitrary: iteration rate0)
  case 0
  then show ?case by simp
next
  case (Suc n)
  note p = irrLoop_pass[OF Suc.prems, of rt cashFlows yearFractions rate0]
  let ?P = "\<lambda>rs result.
           irrLoop rt cashFlows yearFractions iteration rate0 = (result, iteration + length rs) \<and>
           1 \<le> length rs \<and> iteration + length rs \<le> 100 \<and> rs ! 0 = rate0 \<and>
           (\<forall>k. Suc k < length rs \<longrightarrow>
              passContinues rt cashFlows yearFractions (rs ! k) \<and>
              rs ! Suc k = boundRate rt (newRate rt cashFlows yearFractions (rs ! k))) \<and>
           ((npvConverged rt cashFlows yearFractions (last rs) \<and> result = last rs) \<or>
            (\<not> npvConverged rt cashFlows yearFractions (last rs) \<and>
             derivativeNearZero rt cashFlows yearFractions (last rs) \<and> result = last rs) \<or>
            (\<not> npvConverged rt cashFlows yearFractions (last rs) \<and>
             \<not> derivativeNearZero rt cashFlows yearFractions (last rs) \<and>
             rateConverged rt cashFlows yearFractions (last rs) \<and>
             result = newRate rt cashFlows yearFractions (last rs)) \<or>
            (passContinues rt cashFlows yearFractions (last rs) \<and>
             iteration + length rs = 100 \<and>
             result = boundRate rt (newRate rt cashFlows yearFractions (last rs))))"
  show ?case
  proof (cases "passContinues rt cashFlows yearFractions rate0")
    case False
    then have "?P [rate0] (fst (irrLoop rt cashFlows yearFractions iteration rate0))"
      using p Suc.prems by (auto simp: passContinues_def)
    then show ?thesis by blast
  next
    case True
    let ?r = "boundRate rt (newRate rt cashFlows yearFractions rate0)"
    have e: "irrLoop rt cashFlows yearFractions iteration rate0 =
             irrLoop rt cashFlows yearFractions (Suc iteration) ?r"
      using p True by (simp add: passContinues_def)
    show ?thesis
    proof (cases "Suc iteration < 100")
      case False
      then have i: "Suc iteration = 100" using Suc.prems by simp
      have "?P [rate0] ?r"
        using e True i irrLoop_exhausted[of rt cashFlows yearFractions ?r] by simp
      then show ?thesis by blast
    next
      case lt: True
      have n: "n = 100 - Suc iteration" using Suc.hyps(2) by simp
      from Suc.hyps(1)[OF n lt, of ?r]
      obtain rs result where
        l: "irrLoop rt cashFlows yearFractions (Suc iteration) ?r = (result, Suc iteration + length rs)"
        and len: "1 \<le> length rs" "Suc iteration + length rs \<le> 100"
        and hd: "rs ! 0 = ?r"
        and st: "\<And>k. Suc k < length rs \<Longrightarrow>
              passContinues rt cashFlows yearFractions (rs ! k) \<and>
              rs ! Suc k = boundRate rt (newRate rt cashFlows yearFractions (rs ! k))"
        and fin: "(npvConverged rt cashFlows yearFractions (last rs) \<and> result = last rs) \<or>
            (\<not> npvConverged rt cashFlows yearFractions (last rs) \<and>
             derivativeNearZero rt cashFlows yearFractions (last rs) \<and> result = last rs) \<or>
            (\<not> npvConverged rt cashFlows yearFractions (last rs) \<and>
             \<not> derivativeNearZero rt cashFlows yearFractions (last rs) \<and>
             rateConverged rt cashFlows yearFractions (last rs) \<and>
             result = newRate rt cashFlows yearFractions (last rs)) \<or>
            (passContinues rt cashFlows yearFractions (last rs) \<and>
             Suc iteration + length rs = 100 \<and>
             result = boundRate rt (newRate rt cashFlows yearFractions (last rs)))"
        by blast
      have ne: "rs \<noteq> []" using len by auto
      have a: "irrLoop rt cashFlows yearFractions iteration rate0
                 = (result, iteration + length (rate0 # rs))"
        using e l by simp
      have b: "1 \<le> length (rate0 # rs)" "iteration + length (rate0 # rs) \<le> 100"
              "(rate0 # rs) ! 0 = rate0"
        using len by simp_all
      have c: "passContinues rt cashFlows yearFractions ((rate0 # rs) ! k) \<and>
              (rate0 # rs) ! Suc k = boundRate rt (newRate rt cashFlows yearFractions ((rate0 # rs) ! k))"
        if k: "Suc k < length (rate0 # rs)" for k
      proof (cases k)
        case 0
        then show ?thesis using True hd by simp
      next
        case (Suc j)
        then show ?thesis using st[of j] k by simp
      qed
      have d: "last (rate0 # rs) = last rs" using ne by simp
      have f: "(iteration + length (rate0 # rs) = 100) = (Suc iteration + length rs = 100)" by simp
      have "?P (rate0 # rs) result"
        unfolding d f using a b c fin unfolding d f by blast
      then show ?thesis by blast
    qed
  qed
qed


text \<open>
  C4. For cash flows and dates of equal length the solver returns a rate and raises nothing,
  whatever the numbers are, after at least one and at most 100 passes through its loop body.
  From every state of the loop, that is every value of the counter below 100 and every working
  rate, the passes that follow have the working rates \<open>rs\<close>, the first of them the rate of the
  state. Every pass but the last meets none of the three tests and hands the next pass its new
  rate, bounded to the interval from -0.99 to 100. The last pass
  \<^item> finds \<open>|NPV| < 1e-7\<close> and returns its working rate, or
  \<^item> finds the derivative below \<open>1e-7\<close> in magnitude, stops, and its working rate is returned, or
  \<^item> finds the new rate within \<open>1e-7\<close> of the working rate and returns the new rate, or
  \<^item> is pass number 100, and the bounded new rate, the last rate computed, is returned.

  With the counter at 100 no pass is made and the working rate is returned. A bounded rate is
  the literal -0.99, the literal 100, or the rate itself when the rate is neither below -0.99
  nor above 100 (a NaN is neither, and stays a NaN).
\<close>

theorem irr_terminates:
  assumes "length cashFlows = length dates"
  shows
    "(\<exists>rate n. calculateImprovedIRR rt cashFlows dates = Inr rate \<and>
        calculateImprovedIRR_traced rt cashFlows dates = (Inr rate, n) \<and>
        irrLoop rt cashFlows (datesToYearFractions rt dates) 0 (js_lit rt 0.1) = (rate, n) \<and>
        1 \<le> n \<and> n \<le> 100) \<and>
     (\<forall>iteration rate0. iteration < 100 \<longrightarrow>
        (\<exists>rs result.
           irrLoop rt cashFlows (datesToYearFractions rt dates) iteration rate0
             = (result, iteration + length rs) \<and>
           1 \<le> length rs \<and> iteration + length rs \<le> 100 \<and> rs ! 0 = rate0 \<and>
           (\<forall>k. Suc k < length rs \<longrightarrow>
              passContinues rt cashFlows (datesToYearFractions rt dates) (rs ! k) \<and>
              rs ! Suc k =
                boundRate rt (newRate rt cashFlows (datesToYearFractions rt dates) (rs ! k))) \<and>
           ((npvConverged rt cashFlows (datesToYearFractions rt dates) (last rs) \<and>
             result = last rs) \<or>
            (\<not> npvConverged rt cashFlows (datesToYearFractions rt dates) (last rs) \<and>
             derivativeNearZero rt cashFlows (datesToYearFractions rt dates) (last rs) \<and>
             result = last rs) \<or>
            (\<not> npvConverged rt cashFlows (datesToYearFractions rt dates) (last rs) \<and>
             \<not> derivativeNearZero rt cashFlows (datesToYearFractions rt dates) (last rs) \<and>
             rateConverged rt cashFlows (datesToYearFractions rt dates) (last rs) \<and>
             result = newRate rt cashFlows (datesToYearFractions rt dates) (last rs)) \<or>
            (passContinues rt cashFlows (datesToYearFractions rt dates) (last rs) \<and>
             iteration + length rs = 100 \<and>
             result =
               boundRate rt (newRate rt cashFlows (datesToYearFractions rt dates) (last rs)))))) \<and>
     (\<forall>rate0. irrLoop rt cashFlows (datesToYearFractions rt dates) 100 rate0 = (rate0, 100)) \<and>
     (\<forall>rate0. boundRate rt rate0 = js_lit rt (- 0.99) \<or> boundRate rt rate0 = js_lit rt 100 \<or>
        (boundRate rt rate0 = rate0 \<and> \<not> js_lt rt rate0 (js_lit rt (- 0.99)) \<and>
         \<not> js_gt rt rate0 (js_lit rt 100)))"
proof -
  let ?y = "datesToYearFractions rt dates"
  obtain rate n where l: "irrLoop rt cashFlows ?y 0 (js_lit rt 0.1) = (rate, n)"
    by fastforce
  have n: "1 \<le> n \<and> n \<le> 100"
    using irrLoop_count[of 0 rt cashFlows ?y "js_lit rt 0.1"] l by simp
  have a: "\<exists>rate n. calculateImprovedIRR rt cashFlows dates = Inr rate \<and>
        calculateImprovedIRR_traced rt cashFlows dates = (Inr rate, n) \<and>
        irrLoop rt cashFlows ?y 0 (js_lit rt 0.1) = (rate, n) \<and> 1 \<le> n \<and> n \<le> 100"
    using assms l n
    by (simp add: calculateImprovedIRR_def calculateImprovedIRR_traced_def Let_def)
  show ?thesis
    using a irrLoop_trace[of _ rt cashFlows ?y] irrLoop_exhausted[of rt cashFlows ?y]
      boundRate_range[of rt]
    by (intro conjI allI impI) assumption+
qed


text \<open>
  A run of the solver: 100 paid out, 150 received four years later (2024-01-01 to 2028-01-01
  is 1461 days, four years of 365.25 days). The passes work at the rates 0.1, 63949/600000 and
  a third rate near 0.10668; the third pass finds its new rate within \<open>1e-7\<close> and returns it:
  the rate of return, 10.668% a year.
\<close>

lemma js_lit_exact: "js_lit exact_runtime q = Some q"
  by (simp add: exact_runtime_def)

lemma fourYears: "datesToYearFractions exact_runtime [24288, 24336 :: int] = [Some 0, Some 4]"
  by (simp add: datesToYearFractions_def exact_runtime_def daysFromCivil_def Let_def)

lemma calculateNPVAndDerivative_exact:
  "1 + r \<noteq> 0 \<Longrightarrow> calculateNPVAndDerivative exact_runtime [Some a, Some b] [Some 0, Some 4] (Some r)
     = (Some (a + b * (1 / (1 + r) ^ 4)), Some (0 - 4 * b * (1 / (1 + r) ^ 4) / (1 + r)))"
  by (simp add: calculateNPVAndDerivative_def exact_runtime_def Let_def upt_rec[of 0] upt_rec[of 1] numeral_2_eq_2)


lemma js_lt_abs_exact:
  "js_lt exact_runtime (Math_abs exact_runtime (Some x)) (Some e) = (\<bar>x\<bar> < e)"
  by (simp add: exact_runtime_def)

lemma pass_exact:
  assumes "1 + r \<noteq> 0"
  shows "npvConverged exact_runtime [Some a, Some b] [Some 0, Some 4] (Some r)
          = (\<bar>a + b * (1 / (1 + r) ^ 4)\<bar> < 0.0000001)"
    and "derivativeNearZero exact_runtime [Some a, Some b] [Some 0, Some 4] (Some r)
          = (\<bar>0 - 4 * b * (1 / (1 + r) ^ 4) / (1 + r)\<bar> < 0.0000001)"
    and "b \<noteq> 0 \<Longrightarrow> newRate exact_runtime [Some a, Some b] [Some 0, Some 4] (Some r)
          = Some (r - (a + b * (1 / (1 + r) ^ 4)) / (0 - 4 * b * (1 / (1 + r) ^ 4) / (1 + r)))"
  using assms
  by (simp_all add: npvConverged_def derivativeNearZero_def newRate_def calculateNPVAndDerivative_exact js_lt_abs_exact)
     (simp_all add: exact_runtime_def)

lemma boundRate_exact: "- 0.99 \<le> x \<Longrightarrow> x \<le> 100 \<Longrightarrow> boundRate exact_runtime (Some x) = Some x"
  by (simp add: boundRate_def exact_runtime_def Let_def)




lemma solver_run:
  "\<exists>q. calculateImprovedIRR_traced exact_runtime [Some (- 100), Some 150] [24288, 24336 :: int]
          = (Inr (Some q), 3) \<and> 0.1066819 < q \<and> q < 0.1066820"
proof -
  let ?c = "[Some (- 100), Some (150::rat)]"
  let ?y = "[Some (0::rat), Some 4]"
  let ?r1 = "63949 / 600000 :: rat"
  let ?r2 = "49773505863322817052837705251 / 466560000000000000000000000000 :: rat"
  have a1: "\<not> npvConverged exact_runtime ?c ?y (Some (1/10))"
       "\<not> derivativeNearZero exact_runtime ?c ?y (Some (1/10))"
       "newRate exact_runtime ?c ?y (Some (1/10)) = Some ?r1"
    by (simp_all add: pass_exact power_divide)
  have b1: "\<not> rateConverged exact_runtime ?c ?y (Some (1/10))"
    unfolding rateConverged_def a1(3) by (simp add: exact_runtime_def)
  have c1: "boundRate exact_runtime (Some ?r1) = Some ?r1"
    by (rule boundRate_exact) simp_all
  have s1: "irrLoop exact_runtime ?c ?y 0 (Some (1/10)) = irrLoop exact_runtime ?c ?y (Suc 0) (Some ?r1)"
    using irrLoop_pass[of 0 exact_runtime ?c ?y "Some (1/10)"] a1 b1 c1 by simp
  have a2: "\<not> npvConverged exact_runtime ?c ?y (Some ?r1)"
       "\<not> derivativeNearZero exact_runtime ?c ?y (Some ?r1)"
       "newRate exact_runtime ?c ?y (Some ?r1) = Some ?r2"
    by (simp_all add: pass_exact power_divide)
  have b2: "\<not> rateConverged exact_runtime ?c ?y (Some ?r1)"
    unfolding rateConverged_def a2(3) by (simp add: exact_runtime_def)
  have c2: "boundRate exact_runtime (Some ?r2) = Some ?r2"
    by (rule boundRate_exact) simp_all
  have s2: "irrLoop exact_runtime ?c ?y (Suc 0) (Some ?r1) = irrLoop exact_runtime ?c ?y (Suc (Suc 0)) (Some ?r2)"
    using irrLoop_pass[of "Suc 0" exact_runtime ?c ?y "Some ?r1"] a2 b2 c2 by simp
  define q where "q = ?r2 - (- 100 + 150 * (1 / (1 + ?r2) ^ 4)) / (0 - 4 * 150 * (1 / (1 + ?r2) ^ 4) / (1 + ?r2))"
  have a3: "\<not> npvConverged exact_runtime ?c ?y (Some ?r2)"
       "\<not> derivativeNearZero exact_runtime ?c ?y (Some ?r2)"
    by (simp_all add: pass_exact power_divide)
  have n3: "newRate exact_runtime ?c ?y (Some ?r2) = Some q"
    unfolding q_def by (subst pass_exact(3)) simp_all
  have qb: "0.1066819 < q" "q < 0.1066820" "\<bar>q - ?r2\<bar> < 0.0000001"
    unfolding q_def by (simp_all add: power_divide)
  have b3: "rateConverged exact_runtime ?c ?y (Some ?r2)"
    unfolding rateConverged_def n3 using qb(3) by (simp add: exact_runtime_def)
  have s3: "irrLoop exact_runtime ?c ?y (Suc (Suc 0)) (Some ?r2) = (Some q, 3)"
    using irrLoop_pass[of "Suc (Suc 0)" exact_runtime ?c ?y "Some ?r2"] a3 b3 n3 by (simp add: numeral_3_eq_3)
  have "calculateImprovedIRR_traced exact_runtime ?c [24288, 24336 :: int] = (Inr (Some q), 3)"
    unfolding calculateImprovedIRR_traced_def Let_def fourYears js_lit_exact
    using s1 s2 s3 by simp
  then show ?thesis using qb by blast
qed


theorem irr_terminates_witness:
  "length [Some (- 100), Some (150::rat)] = length [24288, 24336 :: int] \<and>
   (\<exists>rate n. calculateImprovedIRR exact_runtime [Some (- 100), Some 150] [24288, 24336] = Inr rate \<and>
      calculateImprovedIRR_traced exact_runtime [Some (- 100), Some 150] [24288, 24336] = (Inr rate, n) \<and>
      irrLoop exact_runtime [Some (- 100), Some 150] (datesToYearFractions exact_runtime [24288, 24336]) 0 (js_lit exact_runtime 0.1) = (rate, n) \<and>
      1 \<le> n \<and> n \<le> 100) \<and>
   (0::nat) < 100 \<and>
   (\<exists>rs result.
      irrLoop exact_runtime [Some (- 100), Some 150] (datesToYearFractions exact_runtime [24288, 24336]) 0 (Some (1 / 10)) = (result, 0 + length rs) \<and>
      1 \<le> length rs \<and> 0 + length rs \<le> 100 \<and> rs ! 0 = Some (1 / 10) \<and>
      (\<forall>k. Suc k < length rs \<longrightarrow>
         passContinues exact_runtime [Some (- 100), Some 150] (datesToYearFractions exact_runtime [24288, 24336]) (rs ! k) \<and>
         rs ! Suc k = boundRate exact_runtime (newRate exact_runtime [Some (- 100), Some 150] (datesToYearFractions exact_runtime [24288, 24336]) (rs ! k))) \<and>
      ((npvConverged exact_runtime [Some (- 100), Some 150] (datesToYearFractions exact_runtime [24288, 24336]) (last rs) \<and> result = last rs) \<or>
       (\<not> npvConverged exact_runtime [Some (- 100), Some 150] (datesToYearFractions exact_runtime [24288, 24336]) (last rs) \<and>
        derivativeNearZero exact_runtime [Some (- 100), Some 150] (datesToYearFractions exact_runtime [24288, 24336]) (last rs) \<and> result = last rs) \<or>
       (\<not> npvConverged exact_runtime [Some (- 100), Some 150] (datesToYearFractions exact_runtime [24288, 24336]) (last rs) \<and>
        \<not> derivativeNearZero exact_runtime [Some (- 100), Some 150] (datesToYearFractions exact_runtime [24288, 24336]) (last rs) \<and>
        rateConverged exact_runtime [Some (- 100), Some 150] (datesToYearFractions exact_runtime [24288, 24336]) (last rs) \<and>
        result = newRate exact_runtime [Some (- 100), Some 150] (datesToYearFractions exact_runtime [24288, 24336]) (last rs)) \<or>
       (passContinues exact_runtime [Some (- 100), Some 150] (datesToYearFractions exact_runtime [24288, 24336]) (last rs) \<and>
        0 + length rs = 100 \<and>
        result = boundRate exact_runtime (newRate exact_runtime [Some (- 100), Some 150] (datesToYearFractions exact_runtime [24288, 24336]) (last rs))))) \<and>
   irrLoop exact_runtime [Some (- 100), Some 150] (datesToYearFractions exact_runtime [24288, 24336]) 100 (Some 250) = (Some 250, 100) \<and>
   (boundRate exact_runtime (Some 250) = js_lit exact_runtime (- 0.99) \<or>
    boundRate exact_runtime (Some 250) = js_lit exact_runtime 100 \<or>
    (boundRate exact_runtime (Some 250) = Some 250 \<and>
     \<not> js_lt exact_runtime (Some 250) (js_lit exact_runtime (- 0.99)) \<and>
     \<not> js_gt exact_runtime (Some 250) (js_lit exact_runtime 100))) \<and>
   (\<exists>q. calculateImprovedIRR_traced exact_runtime [Some (- 100), Some 150] [24288, 24336] = (Inr (Some q), 3) \<and>
      0.1066819 < q \<and> q < 0.1066820)"
proof -
  let ?c = "[Some (- 100), Some (150::rat)]"
  let ?d = "[24288, 24336 :: int]"
  let ?y = "datesToYearFractions exact_runtime ?d"
  have h: "length ?c = length ?d" by simp
  have z: "(0::nat) < 100" by simp
  note t = irr_terminates[OF h, of exact_runtime]
  note a = t[THEN conjunct1]
  note b = t[THEN conjunct2, THEN conjunct1, rule_format, of 0 "Some (1 / 10)", OF z]
  note c = t[THEN conjunct2, THEN conjunct2, THEN conjunct1, rule_format, of "Some 250"]
  note d = t[THEN conjunct2, THEN conjunct2, THEN conjunct2, rule_format, of "Some 250"]
  show ?thesis
    by (intro conjI) (rule h a z b c d solver_run)+
qed

text \<open>
  C5. The solver raises exactly when its two arrays differ in length, and then before its loop
  is entered (no loop body is counted). The arrays the money-weighted return builds always
  have the same length, and \<open>calculate\<close> never fails, so the error cannot come out of it.
\<close>

theorem irr_error_iff_length_mismatch:
  "((\<exists>e. calculateImprovedIRR rt cashFlows dates = Inl e) \<longleftrightarrow> length cashFlows \<noteq> length dates) \<and>
   (length cashFlows \<noteq> length dates \<longrightarrow>
      calculateImprovedIRR_traced rt cashFlows dates = (Inl LengthMismatch, 0)) \<and>
   (\<forall>tableData m schedule. cashFlowSchedule rt config tableData m = Inr schedule \<longrightarrow>
      length (fst schedule) = length (snd schedule)) \<and>
   (\<exists>rows. calculate rt config = Inr rows)"
proof -
  have a: "(\<exists>e. calculateImprovedIRR rt cashFlows dates = Inl e) \<longleftrightarrow> length cashFlows \<noteq> length dates"
    by (auto simp: calculateImprovedIRR_def calculateImprovedIRR_traced_def Let_def split: prod.splits)
  have b: "length cashFlows \<noteq> length dates \<longrightarrow>
      calculateImprovedIRR_traced rt cashFlows dates = (Inl LengthMismatch, 0)"
    by (simp add: calculateImprovedIRR_traced_def)
  have c: "\<forall>tableData m schedule. cashFlowSchedule rt config tableData m = Inr schedule \<longrightarrow>
      length (fst schedule) = length (snd schedule)"
    using cashFlowSchedule_lengths[of rt config] by (metis prod.collapse)
  have d: "\<exists>rows. calculate rt config = Inr rows"
    using calculate_rows[of rt config] by blast
  show ?thesis using a b c d by blast
qed


theorem irr_error_iff_length_mismatch_witness:
  "length [Some (1::rat)] \<noteq> length ([] :: int list) \<and>
   (\<exists>e. calculateImprovedIRR exact_runtime [Some 1] ([] :: int list) = Inl e) \<and>
   calculateImprovedIRR_traced exact_runtime [Some 1] ([] :: int list) = (Inl LengthMismatch, 0) \<and>
   cashFlowSchedule exact_runtime (returnsAndFeesConfig 24288 24300 12)
      (initializeTable (returnsAndFeesConfig 24288 24300 12)) 0
     = Inr ([Some (- 100), Some 100], [24288, 24288]) \<and>
   length (fst ([Some (- 100), Some (100::rat)], [24288, 24288 :: int])) =
   length (snd ([Some (- 100), Some (100::rat)], [24288, 24288 :: int]))"
proof -
  let ?c = "returnsAndFeesConfig (24288::int) 24300 12"
  note t = irr_error_iff_length_mismatch[of exact_runtime "[Some 1]" "[]" ?c]
  have h: "length [Some (1::rat)] \<noteq> length ([] :: int list)" by simp
  have s: "cashFlowSchedule exact_runtime ?c (initializeTable ?c) 0
             = Inr ([Some (- 100), Some 100], [24288, 24288])"
    by (simp add: cashFlowSchedule_def initializeTable_def returnsAndFeesConfig_def exact_runtime_def)
  from t h have a: "\<exists>e. calculateImprovedIRR exact_runtime [Some 1] ([] :: int list) = Inl e"
    by blast
  from t h have b: "calculateImprovedIRR_traced exact_runtime [Some 1] ([] :: int list)
                      = (Inl LengthMismatch, 0)"
    by blast
  from t s have c: "length (fst ([Some (- 100), Some (100::rat)], [24288, 24288 :: int])) =
                    length (snd ([Some (- 100), Some (100::rat)], [24288, 24288 :: int]))"
    by blast
  show ?thesis using h a b s c by blast
qed

section \<open>A negative contribution\<close>

lemma calculateTimeWeightedReturn_unfold:
  "calculateTimeWeightedReturn config tableData currentMonth =
     (if currentMonth = 0 then Inr (Fin 0)
      else
        (case periodReturnsLoop config tableData [1..<currentMonth] of
           Inl e \<Rightarrow> Inl e
         | Inr periodReturns0 \<Rightarrow>
             (case row_at tableData (int currentMonth - 1) of
                Inl e \<Rightarrow> Inl e
              | Inr prevRow \<Rightarrow>
                  Inr (linkReturns (periodReturns0 @
                         [replayedPeriodReturn config (endingPrinciple prevRow)])))))"
  unfolding calculateTimeWeightedReturn_def linkReturns_def replayedPeriodReturn_def Let_def
  by (rule refl)

lemma calculateSinglePeriodReturn_cong:
  assumes "map endingPrinciple t = map endingPrinciple t0"
    and "\<not> monthly_contribution (global config) > 0"
    and "\<not> monthly_contribution (global config0) > 0"
  shows "calculateSinglePeriodReturn config t j = calculateSinglePeriodReturn config0 t0 j"
proof -
  have len: "length t = length t0" using assms(1) by (rule map_eq_imp_length_eq)
  have nth: "endingPrinciple (t ! k) = endingPrinciple (t0 ! k)" if "k < length t" for k
    using assms(1) that len by (metis nth_map)
  show ?thesis
  proof (cases "length t \<le> j")
    case True
    then show ?thesis using len by (simp add: calculateSinglePeriodReturn_def)
  next
    case False
    show ?thesis
    proof (cases "1 \<le> j")
      case True
      then have "row_at t (int j - 1) = Inr (t ! (j - 1))" "row_at t0 (int j - 1) = Inr (t0 ! (j - 1))"
        using False len by (simp_all add: row_at_pred)
      moreover have "endingPrinciple (t ! (j - 1)) = endingPrinciple (t0 ! (j - 1))"
        using nth[of "j - 1"] False by simp
      moreover have "endingPrinciple (t ! j) = endingPrinciple (t0 ! j)"
        using nth[of j] False by simp
      ultimately show ?thesis using False len assms(2,3)
        by (simp add: calculateSinglePeriodReturn_def Let_def)
    next
      case j0: False
      then show ?thesis using False len
        by (simp add: calculateSinglePeriodReturn_def row_at_def)
    qed
  qed
qed

lemma periodReturnsLoop_cong:
  assumes "map endingPrinciple t = map endingPrinciple t0"
    and "\<not> monthly_contribution (global config) > 0"
    and "\<not> monthly_contribution (global config0) > 0"
  shows "periodReturnsLoop config t js = periodReturnsLoop config0 t0 js"
  by (induction js) (simp_all add: calculateSinglePeriodReturn_cong[OF assms] cong: sum.case_cong)

lemma calculateTimeWeightedReturn_cong:
  assumes "map endingPrinciple t = map endingPrinciple t0"
    and "\<not> monthly_contribution (global config) > 0"
    and "\<not> monthly_contribution (global config0) > 0"
    and "config_fees config0 = config_fees config"
    and "config_returns config0 = config_returns config"
  shows "calculateTimeWeightedReturn config t m = calculateTimeWeightedReturn config0 t0 m"
proof -
  have len: "length t = length t0" using assms(1) by (rule map_eq_imp_length_eq)
  have nth: "endingPrinciple (t ! k) = endingPrinciple (t0 ! k)" if "k < length t" for k
    using assms(1) that len by (metis nth_map)
  have fees: "calculateMonthlyFees config0 = calculateMonthlyFees config"
    by (rule ext) (simp add: calculateMonthlyFees_def assms(4))
  have rate: "calculateDefaultMonthlyReturnRate config0 = calculateDefaultMonthlyReturnRate config"
    by (simp add: calculateDefaultMonthlyReturnRate_def assms(5))
  have replay: "replayedPeriodReturn config0 = replayedPeriodReturn config"
    using assms(2,3) by (intro ext) (simp add: replayedPeriodReturn_def fees rate)
  have loop: "periodReturnsLoop config t [1..<m] = periodReturnsLoop config0 t0 [1..<m]"
    by (rule periodReturnsLoop_cong[OF assms(1-3)])
  have row: "(case row_at t (int m - 1) of Inl e \<Rightarrow> Inl e | Inr r \<Rightarrow> Inr (endingPrinciple r))
           = (case row_at t0 (int m - 1) of Inl e \<Rightarrow> Inl e | Inr r \<Rightarrow> Inr (endingPrinciple r))"
    using len nth[of "nat (int m - 1)"] by (auto simp: row_at_def)
  show ?thesis
    unfolding calculateTimeWeightedReturn_unfold loop replay
    using row by (auto split: sum.splits)
qed

lemma withoutMWR_fields:
  assumes "withoutMWR p = withoutMWR p0"
  shows "endingPrinciple p = endingPrinciple p0"
    and "cumulativeContributions p = cumulativeContributions p0"
    and "valueWithoutFees p = valueWithoutFees p0"
    and "cumulativeFees p = cumulativeFees p0"
  using arg_cong[OF assms, of endingPrinciple] arg_cong[OF assms, of cumulativeContributions]
    arg_cong[OF assms, of valueWithoutFees] arg_cong[OF assms, of cumulativeFees]
  by (simp_all add: withoutMWR_def)

lemma pushedRow_cong:
  assumes "withoutMWR p = withoutMWR p0"
    and "\<not> monthly_contribution (global config) > 0"
    and "\<not> monthly_contribution (global config0) > 0"
    and "config_fees config0 = config_fees config"
    and "config_returns config0 = config_returns config"
    and "monthlyReturns config0 = monthlyReturns config"
    and "start_date (global config0) = start_date (global config)"
  shows "pushedRow rt config p m = pushedRow rt config0 p0 m"
proof -
  note f = withoutMWR_fields[OF assms(1)]
  have fees: "calculateMonthlyFees config0 = calculateMonthlyFees config"
    by (rule ext) (simp add: calculateMonthlyFees_def assms(4))
  have d: "calculateDefaultMonthlyReturnRate config0 = calculateDefaultMonthlyReturnRate config"
    by (simp add: calculateDefaultMonthlyReturnRate_def assms(5))
  have rate: "getMonthlyReturnRate config0 = getMonthlyReturnRate config"
    by (rule ext) (simp only: getMonthlyReturnRate_def d assms(6))
  show ?thesis
    unfolding pushedRow_def Let_def
    by (simp only: f fees rate assms(2,3,7) if_False)
qed

text \<open>
  C10. With a strictly negative monthly contribution the calculation returns the rows of the
  same configuration with contribution zero, in every field but the money-weighted return: the
  same starting and ending principals, cumulative contributions and fee-free balances. The
  negative amount is never added: the cumulative contributions stay at the starting principal,
  each month starts from the ending principal of the month before, and the fee-free balance
  grows by the return alone.
\<close>

theorem negative_contribution_ignored:
  assumes "monthly_contribution (global config) < 0"
  shows "\<exists>rows rows0.
           calculate rt config = Inr rows \<and>
           calculate rt (config \<lparr> global := (global config) \<lparr> monthly_contribution := 0 \<rparr> \<rparr>) = Inr rows0 \<and>
           map withoutMWR rows = map withoutMWR rows0 \<and>
           map startingPrinciple rows = map startingPrinciple rows0 \<and>
           map endingPrinciple rows = map endingPrinciple rows0 \<and>
           map cumulativeContributions rows = map cumulativeContributions rows0 \<and>
           map valueWithoutFees rows = map valueWithoutFees rows0 \<and>
           (\<forall>i. i < length rows \<longrightarrow>
              cumulativeContributions (rows ! i) = Fin (starting_principle (global config))) \<and>
           (\<forall>i. Suc i < length rows \<longrightarrow>
              startingPrinciple (rows ! Suc i) = endingPrinciple (rows ! i) \<and>
              valueWithoutFees (rows ! Suc i) =
                dec_plus (valueWithoutFees (rows ! i))
                         (dec_mul (valueWithoutFees (rows ! i)) (getMonthlyReturnRate config (Suc i))))"
proof -
  let ?c0 = "config \<lparr> global := (global config) \<lparr> monthly_contribution := 0 \<rparr> \<rparr>"
  have neg: "\<not> monthly_contribution (global config) > 0" using assms by simp
  have neg0: "\<not> monthly_contribution (global ?c0) > 0" by simp
  obtain rows where rows: "calculate rt config = Inr rows"
    and len: "length rows = Suc (nat (calculateMonthDifference rt config))"
    and r0: "rows ! 0 = initializeTable config ! 0"
    and step: "\<And>i. Suc i < length rows \<Longrightarrow>
        (\<exists>twr mwr.
           calculateTimeWeightedReturn config
             (take (Suc i) rows @ [pushedRow rt config (rows ! i) (Suc i)]) (Suc i) = Inr twr \<and>
           rows ! Suc i = (pushedRow rt config (rows ! i) (Suc i))
                            \<lparr> timeWeightedReturn := twr, moneyWeightedReturn := mwr \<rparr>)"
    using calculate_rows[of rt config] by blast
  obtain rows0 where rows0: "calculate rt ?c0 = Inr rows0"
    and len0: "length rows0 = Suc (nat (calculateMonthDifference rt ?c0))"
    and r00: "rows0 ! 0 = initializeTable ?c0 ! 0"
    and step0: "\<And>i. Suc i < length rows0 \<Longrightarrow>
        (\<exists>twr mwr.
           calculateTimeWeightedReturn ?c0
             (take (Suc i) rows0 @ [pushedRow rt ?c0 (rows0 ! i) (Suc i)]) (Suc i) = Inr twr \<and>
           rows0 ! Suc i = (pushedRow rt ?c0 (rows0 ! i) (Suc i))
                            \<lparr> timeWeightedReturn := twr, moneyWeightedReturn := mwr \<rparr>)"
    using calculate_rows[of rt ?c0] by blast
  have leq: "length rows0 = length rows"
    using len len0 by (simp add: calculateMonthDifference_def Let_def)
  have row0: "rows0 ! 0 = rows ! 0"
    using r0 r00 by (simp add: initializeTable_def)
  have same: "withoutMWR (rows ! i) = withoutMWR (rows0 ! i) \<and>
              map endingPrinciple (take (Suc i) rows) = map endingPrinciple (take (Suc i) rows0)"
    if "i < length rows" for i
    using that
  proof (induction i)
    case 0
    then show ?case using row0 leq by (simp add: take_Suc_conv_app_nth)
  next
    case (Suc i)
    then have IH: "withoutMWR (rows ! i) = withoutMWR (rows0 ! i)"
      and IHm: "map endingPrinciple (take (Suc i) rows) = map endingPrinciple (take (Suc i) rows0)"
      by simp_all
    have p: "pushedRow rt config (rows ! i) (Suc i) = pushedRow rt ?c0 (rows0 ! i) (Suc i)"
      by (rule pushedRow_cong[OF IH neg neg0]) simp_all
    obtain twr mwr where
      twr: "calculateTimeWeightedReturn config
             (take (Suc i) rows @ [pushedRow rt config (rows ! i) (Suc i)]) (Suc i) = Inr twr" and
      r: "rows ! Suc i = (pushedRow rt config (rows ! i) (Suc i))
                            \<lparr> timeWeightedReturn := twr, moneyWeightedReturn := mwr \<rparr>"
      using step[of i] Suc.prems by blast
    obtain twr0 mwr0 where
      twr0: "calculateTimeWeightedReturn ?c0
             (take (Suc i) rows0 @ [pushedRow rt ?c0 (rows0 ! i) (Suc i)]) (Suc i) = Inr twr0" and
      r0': "rows0 ! Suc i = (pushedRow rt ?c0 (rows0 ! i) (Suc i))
                            \<lparr> timeWeightedReturn := twr0, moneyWeightedReturn := mwr0 \<rparr>"
      using step0[of i] Suc.prems leq by auto
    have "map endingPrinciple (take (Suc i) rows @ [pushedRow rt config (rows ! i) (Suc i)])
        = map endingPrinciple (take (Suc i) rows0 @ [pushedRow rt ?c0 (rows0 ! i) (Suc i)])"
      using IHm p by simp
    from calculateTimeWeightedReturn_cong[OF this neg neg0, of "Suc i"]
    have "twr = twr0" using twr twr0 by simp
    then have w: "withoutMWR (rows ! Suc i) = withoutMWR (rows0 ! Suc i)"
      unfolding r r0' p by (simp add: withoutMWR_def)
    have "endingPrinciple (rows ! Suc i) = endingPrinciple (rows0 ! Suc i)"
      by (rule withoutMWR_fields(1)[OF w])
    then have "map endingPrinciple (take (Suc (Suc i)) rows) = map endingPrinciple (take (Suc (Suc i)) rows0)"
      using IHm Suc.prems leq by (simp add: take_Suc_conv_app_nth[of "Suc i"])
    then show ?case using w by simp
  qed
  have m: "map withoutMWR rows = map withoutMWR rows0"
    by (rule nth_equalityI) (simp_all add: leq same)
  have cc: "cumulativeContributions (rows ! i) = Fin (starting_principle (global config))"
    if "i < length rows" for i
    using that
  proof (induction i)
    case 0
    then show ?case by (simp add: r0 initializeTable_def)
  next
    case (Suc i)
    obtain twr mwr where
      r: "rows ! Suc i = (pushedRow rt config (rows ! i) (Suc i))
                            \<lparr> timeWeightedReturn := twr, moneyWeightedReturn := mwr \<rparr>"
      using step[of i] Suc.prems by blast
    show ?case using Suc neg by (simp add: r pushedRow_def Let_def)
  qed
  have st: "startingPrinciple (rows ! Suc i) = endingPrinciple (rows ! i) \<and>
              valueWithoutFees (rows ! Suc i) =
                dec_plus (valueWithoutFees (rows ! i))
                         (dec_mul (valueWithoutFees (rows ! i)) (getMonthlyReturnRate config (Suc i)))"
    if si: "Suc i < length rows" for i
  proof -
    obtain twr mwr where
      r: "rows ! Suc i = (pushedRow rt config (rows ! i) (Suc i))
                            \<lparr> timeWeightedReturn := twr, moneyWeightedReturn := mwr \<rparr>"
      using step[of i] si by blast
    show ?thesis using neg by (simp add: r pushedRow_def Let_def)
  qed
  have f: "map g rows = map g rows0" if "\<And>r. g (withoutMWR r) = g r" for g :: "'a TableRow \<Rightarrow> decimal"
  proof -
    have "map g rows = map g (map withoutMWR rows)" by (simp add: that)
    also have "\<dots> = map g (map withoutMWR rows0)" by (simp only: m)
    also have "\<dots> = map g rows0" by (simp add: that)
    finally show ?thesis .
  qed
  have m1: "map startingPrinciple rows = map startingPrinciple rows0"
    by (rule f) (simp add: withoutMWR_def)
  have m2: "map endingPrinciple rows = map endingPrinciple rows0"
    by (rule f) (simp add: withoutMWR_def)
  have m3: "map cumulativeContributions rows = map cumulativeContributions rows0"
    by (rule f) (simp add: withoutMWR_def)
  have m4: "map valueWithoutFees rows = map valueWithoutFees rows0"
    by (rule f) (simp add: withoutMWR_def)
  show ?thesis using rows rows0 m m1 m2 m3 m4 cc st by blast
qed


theorem negative_contribution_ignored_witness:
  "monthly_contribution (global (negativeContributionConfig (24288::int) 24300)) < 0 \<and>
   (\<exists>rows rows0.
      calculate exact_runtime (negativeContributionConfig 24288 24300) = Inr rows \<and>
      calculate exact_runtime
        ((negativeContributionConfig 24288 24300)
           \<lparr> global := (global (negativeContributionConfig 24288 24300))
                          \<lparr> monthly_contribution := 0 \<rparr> \<rparr>) = Inr rows0 \<and>
      map withoutMWR rows = map withoutMWR rows0 \<and>
      map startingPrinciple rows = map startingPrinciple rows0 \<and>
      map endingPrinciple rows = map endingPrinciple rows0 \<and>
      map cumulativeContributions rows = map cumulativeContributions rows0 \<and>
      map valueWithoutFees rows = map valueWithoutFees rows0 \<and>
      (\<forall>i. i < length rows \<longrightarrow>
         cumulativeContributions (rows ! i) =
           Fin (starting_principle (global (negativeContributionConfig (24288::int) 24300)))) \<and>
      (\<forall>i. Suc i < length rows \<longrightarrow>
         startingPrinciple (rows ! Suc i) = endingPrinciple (rows ! i) \<and>
         valueWithoutFees (rows ! Suc i) =
           dec_plus (valueWithoutFees (rows ! i))
                    (dec_mul (valueWithoutFees (rows ! i))
                       (getMonthlyReturnRate (negativeContributionConfig (24288::int) 24300) (Suc i)))))"
proof -
  have h: "monthly_contribution (global (negativeContributionConfig (24288::int) 24300)) < 0"
    by (simp add: negativeContributionConfig_def)
  show ?thesis by (rule conjI[OF h negative_contribution_ignored[OF h]])
qed

section \<open>The two accumulators\<close>














text \<open>
  A negative fee rate is one way to a negative fee. With a fee of 12% a year, a starting
  principal of -100 brings the cumulative fees from 0 to -1, and so does a starting principal
  of 100 with an override of -200 percent for month 1; with a fee of 2400% a year (200% a
  month) and a starting principal of 100 the principal turns negative, and the cumulative fees
  go from 200 in month 1 back to 0 in month 2.
\<close>

lemma monthlyFeeConfig_rows:
  assumes "0 < n"
  shows "\<exists>rows. calculate rt (monthlyFeeConfig d0 d1 sp feeValue overrides n) = Inr rows \<and>
     length rows = Suc (nat n) \<and>
     endingPrinciple (rows ! 0) = Fin sp \<and> cumulativeFees (rows ! 0) = Fin 0 \<and>
     (\<forall>i. Suc i < length rows \<longrightarrow>
        (\<forall>e f r. endingPrinciple (rows ! i) = Fin e \<longrightarrow> cumulativeFees (rows ! i) = Fin f \<longrightarrow>
           getMonthlyReturnRate (monthlyFeeConfig d0 d1 sp feeValue overrides n) (Suc i) = Fin r \<longrightarrow>
           endingPrinciple (rows ! Suc i) = Fin ((e + e * r) - (e + e * r) * (feeValue / 12)) \<and>
           cumulativeFees (rows ! Suc i) = Fin (f + (e + e * r) * (feeValue / 12))))"
proof -
  let ?c = "monthlyFeeConfig d0 d1 sp feeValue overrides n"
  obtain rows where rows: "calculate rt ?c = Inr rows"
    and len: "length rows = Suc (nat (calculateMonthDifference rt ?c))"
    and r0: "rows ! 0 = initializeTable ?c ! 0"
    and step: "\<And>i. Suc i < length rows \<Longrightarrow>
        (\<exists>twr mwr. rows ! Suc i = (pushedRow rt ?c (rows ! i) (Suc i))
                            \<lparr> timeWeightedReturn := twr, moneyWeightedReturn := mwr \<rparr>)"
    using calculate_rows[of rt ?c] by blast
  have md: "calculateMonthDifference rt ?c = n"
    using assms by (simp add: calculateMonthDifference_def monthlyFeeConfig_def)
  have g: "monthly_contribution (global ?c) = 0" "starting_principle (global ?c) = sp"
    by (simp_all add: monthlyFeeConfig_def)
  have fee: "calculateMonthlyFees ?c (Fin p) = Fin (p * (feeValue / 12))" for p
    by (simp add: calculateMonthlyFees_def monthlyFeeConfig_def)
  have "endingPrinciple (rows ! Suc i) = Fin ((e + e * r) - (e + e * r) * (feeValue / 12)) \<and>
        cumulativeFees (rows ! Suc i) = Fin (f + (e + e * r) * (feeValue / 12))"
    if si: "Suc i < length rows" and e: "endingPrinciple (rows ! i) = Fin e"
      and f: "cumulativeFees (rows ! i) = Fin f" and r: "getMonthlyReturnRate ?c (Suc i) = Fin r"
    for i e f r
  proof -
    obtain twr mwr where r1: "rows ! Suc i = (pushedRow rt ?c (rows ! i) (Suc i))
                            \<lparr> timeWeightedReturn := twr, moneyWeightedReturn := mwr \<rparr>"
      using step[OF si] by blast
    show ?thesis unfolding r1 by (simp add: pushedRow_def Let_def g e f r fee)
  qed
  moreover have "endingPrinciple (rows ! 0) = Fin sp" "cumulativeFees (rows ! 0) = Fin 0"
    by (simp_all add: r0 initializeTable_def g)
  ultimately show ?thesis using rows len md by auto
qed


lemma monthlyFeeConfig_rate:
  "getMonthlyReturnRate (monthlyFeeConfig d0 d1 sp feeValue None n) m = Fin 0"
  "getMonthlyReturnRate
     (monthlyFeeConfig d0 d1 sp feeValue
        (Some [\<lparr> mr_month = 1, mr_value = - 200, isEmpty = False \<rparr>]) n) (Suc 0) = Fin (- 2)"
  by (simp_all add: getMonthlyReturnRate_def calculateDefaultMonthlyReturnRate_def monthlyFeeConfig_def)

lemma negative_fee_examples:
  "(\<exists>rows. calculate rt (monthlyFeeConfig d0 d1 (- 100) 0.12 None 1) = Inr rows \<and>
      cumulativeFees (rows ! 0) = Fin 0 \<and> cumulativeFees (rows ! 1) = Fin (- 1)) \<and>
   (\<exists>rows. calculate rt (monthlyFeeConfig d0 d1 100 0.12
                (Some [\<lparr> mr_month = 1, mr_value = - 200, isEmpty = False \<rparr>]) 1) = Inr rows \<and>
      cumulativeFees (rows ! 0) = Fin 0 \<and> cumulativeFees (rows ! 1) = Fin (- 1)) \<and>
   (\<exists>rows. calculate rt (monthlyFeeConfig d0 d1 100 24 None 2) = Inr rows \<and>
      cumulativeFees (rows ! 1) = Fin 200 \<and> cumulativeFees (rows ! 2) = Fin 0)"
proof (intro conjI)
  show "\<exists>rows. calculate rt (monthlyFeeConfig d0 d1 (- 100) 0.12 None 1) = Inr rows \<and>
      cumulativeFees (rows ! 0) = Fin 0 \<and> cumulativeFees (rows ! 1) = Fin (- 1)"
  proof -
    obtain rows where rows: "calculate rt (monthlyFeeConfig d0 d1 (- 100) 0.12 None 1) = Inr rows"
      and len: "length rows = Suc (nat 1)"
      and r0: "endingPrinciple (rows ! 0) = Fin (- 100)" "cumulativeFees (rows ! 0) = Fin 0"
      and step: "\<And>i e f r. Suc i < length rows \<Longrightarrow> endingPrinciple (rows ! i) = Fin e \<Longrightarrow>
           cumulativeFees (rows ! i) = Fin f \<Longrightarrow>
           getMonthlyReturnRate (monthlyFeeConfig d0 d1 (- 100) 0.12 None 1) (Suc i) = Fin r \<Longrightarrow>
           cumulativeFees (rows ! Suc i) = Fin (f + (e + e * r) * (0.12 / 12))"
      using monthlyFeeConfig_rows[of 1 rt d0 d1 "- 100" "0.12" None] by auto
    have "cumulativeFees (rows ! Suc 0) = Fin (- 1)"
      using step[OF _ r0 monthlyFeeConfig_rate(1)] len by simp
    then show ?thesis using rows r0 by auto
  qed
next
  let ?o = "Some [\<lparr> mr_month = 1, mr_value = - 200, isEmpty = False \<rparr>]"
  show "\<exists>rows. calculate rt (monthlyFeeConfig d0 d1 100 0.12 ?o 1) = Inr rows \<and>
      cumulativeFees (rows ! 0) = Fin 0 \<and> cumulativeFees (rows ! 1) = Fin (- 1)"
  proof -
    obtain rows where rows: "calculate rt (monthlyFeeConfig d0 d1 100 0.12 ?o 1) = Inr rows"
      and len: "length rows = Suc (nat 1)"
      and r0: "endingPrinciple (rows ! 0) = Fin 100" "cumulativeFees (rows ! 0) = Fin 0"
      and step: "\<And>i e f r. Suc i < length rows \<Longrightarrow> endingPrinciple (rows ! i) = Fin e \<Longrightarrow>
           cumulativeFees (rows ! i) = Fin f \<Longrightarrow>
           getMonthlyReturnRate (monthlyFeeConfig d0 d1 100 0.12 ?o 1) (Suc i) = Fin r \<Longrightarrow>
           cumulativeFees (rows ! Suc i) = Fin (f + (e + e * r) * (0.12 / 12))"
      using monthlyFeeConfig_rows[of 1 rt d0 d1 100 "0.12" ?o] by auto
    have "cumulativeFees (rows ! Suc 0) = Fin (- 1)"
      using step[OF _ r0 monthlyFeeConfig_rate(2)] len by simp
    then show ?thesis using rows r0 by auto
  qed
next
  show "\<exists>rows. calculate rt (monthlyFeeConfig d0 d1 100 24 None 2) = Inr rows \<and>
      cumulativeFees (rows ! 1) = Fin 200 \<and> cumulativeFees (rows ! 2) = Fin 0"
  proof -
    obtain rows where rows: "calculate rt (monthlyFeeConfig d0 d1 100 24 None 2) = Inr rows"
      and len: "length rows = Suc (nat 2)"
      and r0: "endingPrinciple (rows ! 0) = Fin 100" "cumulativeFees (rows ! 0) = Fin 0"
      and step: "\<And>i e f r. Suc i < length rows \<Longrightarrow> endingPrinciple (rows ! i) = Fin e \<Longrightarrow>
           cumulativeFees (rows ! i) = Fin f \<Longrightarrow>
           getMonthlyReturnRate (monthlyFeeConfig d0 d1 100 24 None 2) (Suc i) = Fin r \<Longrightarrow>
           endingPrinciple (rows ! Suc i) = Fin ((e + e * r) - (e + e * r) * (24 / 12)) \<and>
           cumulativeFees (rows ! Suc i) = Fin (f + (e + e * r) * (24 / 12))"
      using monthlyFeeConfig_rows[of 2 rt d0 d1 100 24 None] by auto
    have r1: "endingPrinciple (rows ! Suc 0) = Fin (- 100)" "cumulativeFees (rows ! Suc 0) = Fin 200"
      using step[OF _ r0 monthlyFeeConfig_rate(1)] len by simp_all
    have r2: "cumulativeFees (rows ! Suc (Suc 0)) = Fin 0"
      using step[OF _ r1 monthlyFeeConfig_rate(1)] len by simp
    have "rows ! 2 = rows ! Suc (Suc 0)" by (simp add: numeral_2_eq_2)
    then show ?thesis using rows r1 r2 by auto
  qed
qed

section \<open>The analytic metrics in a month with an override\<close>

lemma overrideConfig_row1:
  "\<exists>rows twr mwr. calculate rt (overrideConfig d0 d1) = Inr rows \<and> length rows = 2 \<and>
     rows ! 0 = initializeTable (overrideConfig d0 d1) ! 0 \<and>
     calculateTimeWeightedReturn (overrideConfig d0 d1)
       (take 1 rows @ [pushedRow rt (overrideConfig d0 d1) (rows ! 0) 1]) 1 = Inr twr \<and>
     calculateMoneyWeightedReturn rt (overrideConfig d0 d1)
       (take 1 rows @ [pushedRow rt (overrideConfig d0 d1) (rows ! 0) 1]) 1 = Inr mwr \<and>
     rows ! 1 = (pushedRow rt (overrideConfig d0 d1) (rows ! 0) 1)
                  \<lparr> timeWeightedReturn := twr, moneyWeightedReturn := mwr \<rparr>"
proof -
  let ?c = "overrideConfig d0 d1"
  obtain rows where rows: "calculate rt ?c = Inr rows"
    and len: "length rows = Suc (nat (calculateMonthDifference rt ?c))"
    and r0: "rows ! 0 = initializeTable ?c ! 0"
    and step: "\<And>i. Suc i < length rows \<Longrightarrow>
        (\<exists>twr mwr.
           calculateTimeWeightedReturn ?c
             (take (Suc i) rows @ [pushedRow rt ?c (rows ! i) (Suc i)]) (Suc i) = Inr twr \<and>
           calculateMoneyWeightedReturn rt ?c
             (take (Suc i) rows @ [pushedRow rt ?c (rows ! i) (Suc i)]) (Suc i) = Inr mwr \<and>
           rows ! Suc i = (pushedRow rt ?c (rows ! i) (Suc i))
                            \<lparr> timeWeightedReturn := twr, moneyWeightedReturn := mwr \<rparr>)"
    using calculate_rows[of rt ?c] by blast
  have "calculateMonthDifference rt ?c = 1"
    by (simp add: calculateMonthDifference_def overrideConfig_def)
  then have l: "length rows = 2" using len by simp
  then have "Suc 0 < length rows" by simp
  from step[OF this] show ?thesis using rows l r0 by auto
qed

lemma overrideConfig_facts:
  "getMonthlyReturnRate (overrideConfig d0 d1) (Suc 0) = Fin (5 / 100)"
  "calculateDefaultMonthlyReturnRate (overrideConfig d0 d1) = Fin (1 / 100)"
  "calculateMonthlyFees (overrideConfig d0 d1) p = Fin 0"
  "monthly_contribution (global (overrideConfig d0 d1)) = 0"
  "starting_principle (global (overrideConfig d0 d1)) = 100"
  by (simp_all add: getMonthlyReturnRate_def calculateDefaultMonthlyReturnRate_def
        calculateMonthlyFees_def overrideConfig_def)

text \<open>
  C1 fails on the code. Starting principal 100, no contribution, no fee, a default rate of 1%
  a month and an override of 5% for month 1: row 1 ends at 105, so the period return of month 1
  is 5% and the specification's time-weighted return of row 1 is 5. The calculator stores 1:
  \<^verbatim>\<open>calculateTimeWeightedReturn\<close> replays the current month with \<open>defaultMonthlyReturnRate\<close>
  where \<^verbatim>\<open>calculateMonth\<close> used \<^verbatim>\<open>getMonthlyReturnRate(month)\<close>.
\<close>

theorem twr_replay_ignores_override:
  "\<exists>rows. calculate rt (overrideConfig d0 d1) = Inr rows \<and> length rows = 2 \<and>
     endingPrinciple (rows ! 0) = Fin 100 \<and>
     endingPrinciple (rows ! 1) = Fin 105 \<and>
     timeWeightedReturn (rows ! 1) = Fin 1 \<and>
     timeWeightedReturn_spec (overrideConfig d0 d1) rows 1 = Fin 5"
proof -
  let ?c = "overrideConfig d0 d1"
  obtain rows twr mwr where rows: "calculate rt ?c = Inr rows" and len: "length rows = 2"
    and r0: "rows ! 0 = initializeTable ?c ! 0"
    and twr: "calculateTimeWeightedReturn ?c (take 1 rows @ [pushedRow rt ?c (rows ! 0) 1]) 1 = Inr twr"
    and r1: "rows ! 1 = (pushedRow rt ?c (rows ! 0) 1)
                  \<lparr> timeWeightedReturn := twr, moneyWeightedReturn := mwr \<rparr>"
    using overrideConfig_row1[of rt d0 d1] by blast
  have e0: "endingPrinciple (rows ! 0) = Fin 100"
    by (simp add: r0 initializeTable_def overrideConfig_facts)
  have e1: "endingPrinciple (rows ! 1) = Fin 105"
    unfolding r1 by (simp add: pushedRow_def Let_def e0 overrideConfig_facts)
  have t: "take 1 rows = [rows ! 0]" using len by (cases rows) simp_all
  have "twr = Fin 1"
    using twr unfolding t
    by (simp add: calculateTimeWeightedReturn_unfold row_at_def linkReturns_def
          replayedPeriodReturn_def Let_def e0 overrideConfig_facts)
  then have t1: "timeWeightedReturn (rows ! 1) = Fin 1" unfolding r1 by simp
  have s: "timeWeightedReturn_spec ?c rows 1 = Fin 5"
    by (simp add: timeWeightedReturn_spec_def periodReturn_spec_def replayedEndValue_spec_def
          linkReturns_def Let_def e0 overrideConfig_facts)
  show ?thesis using rows len e0 e1 t1 s by blast
qed

text \<open>
  C2 fails on the code, on the same configuration, whose contribution is zero: the total net
  return rate of row 1 is 5, from the ending principal 105, and the money-weighted return the
  calculator stores is 1. Its zero-contribution branch replays the month with
  \<open>defaultMonthlyReturnRate\<close> as well.
\<close>

theorem mwr_replay_ignores_override:
  "\<exists>rows. calculate rt (overrideConfig d0 d1) = Inr rows \<and> length rows = 2 \<and>
     monthly_contribution (global (overrideConfig d0 d1)) = 0 \<and>
     endingPrinciple (rows ! 1) = Fin 105 \<and>
     totalNetReturnRate (rows ! 1) = Fin 5 \<and>
     moneyWeightedReturn (rows ! 1) = Fin 1"
proof -
  let ?c = "overrideConfig d0 d1"
  obtain rows twr mwr where rows: "calculate rt ?c = Inr rows" and len: "length rows = 2"
    and r0: "rows ! 0 = initializeTable ?c ! 0"
    and mwr: "calculateMoneyWeightedReturn rt ?c (take 1 rows @ [pushedRow rt ?c (rows ! 0) 1]) 1 = Inr mwr"
    and r1: "rows ! 1 = (pushedRow rt ?c (rows ! 0) 1)
                  \<lparr> timeWeightedReturn := twr, moneyWeightedReturn := mwr \<rparr>"
    using overrideConfig_row1[of rt d0 d1] by blast
  have e0: "endingPrinciple (rows ! 0) = Fin 100" "cumulativeContributions (rows ! 0) = Fin 100"
    by (simp_all add: r0 initializeTable_def overrideConfig_facts)
  have e1: "endingPrinciple (rows ! 1) = Fin 105"
    unfolding r1 by (simp add: pushedRow_def Let_def e0 overrideConfig_facts)
  have n1: "totalNetReturnRate (rows ! 1) = Fin 5"
    unfolding r1 by (simp add: pushedRow_def Let_def e0 overrideConfig_facts)
  have t: "take 1 rows = [rows ! 0]" using len by (cases rows) simp_all
  have "mwr = Fin 1"
    using mwr unfolding t
    by (simp add: calculateMoneyWeightedReturn_def row_at_def Let_def e0 overrideConfig_facts)
  then have m1: "moneyWeightedReturn (rows ! 1) = Fin 1" unfolding r1 by simp
  show ?thesis using rows len e1 n1 m1 overrideConfig_facts(4)[of d0 d1] by blast
qed

text \<open>
  In a month without an override both metrics are what the specification says: the replay
  with the default rate is then the step the month stepper took.
\<close>

lemma dec_plus_zero [simp]: "dec_plus x (Fin 0) = x"
  by (cases x) simp_all

lemma calculateSinglePeriodReturn_spec:
  assumes "1 \<le> i" and "i < length t"
  shows "calculateSinglePeriodReturn config t i =
           Inr (periodReturn_spec config (endingPrinciple (t ! (i - 1))) (endingPrinciple (t ! i)))"
  using assms
  by (simp add: calculateSinglePeriodReturn_def row_at_pred periodReturn_spec_def Let_def)

lemma periodReturnsLoop_spec:
  assumes "\<And>i. i \<in> set js \<Longrightarrow> 1 \<le> i \<and> i < length t"
  shows "periodReturnsLoop config t js =
           Inr (map (\<lambda>i. periodReturn_spec config (endingPrinciple (t ! (i - 1)))
                                                   (endingPrinciple (t ! i))) js)"
  using assms
proof (induction js)
  case Nil
  then show ?case by simp
next
  case (Cons j js)
  have "calculateSinglePeriodReturn config t j =
           Inr (periodReturn_spec config (endingPrinciple (t ! (j - 1))) (endingPrinciple (t ! j)))"
    using Cons.prems[of j] by (simp add: calculateSinglePeriodReturn_spec)
  moreover have "periodReturnsLoop config t js =
           Inr (map (\<lambda>i. periodReturn_spec config (endingPrinciple (t ! (i - 1)))
                                                   (endingPrinciple (t ! i))) js)"
    using Cons by simp
  ultimately show ?case by simp
qed

lemma replayedPeriodReturn_spec:
  assumes "getMonthlyReturnRate config m = calculateDefaultMonthlyReturnRate config"
  shows "replayedPeriodReturn config startValue =
           periodReturn_spec config startValue (replayedEndValue_spec config startValue m)"
  by (simp add: replayedPeriodReturn_def periodReturn_spec_def replayedEndValue_spec_def Let_def assms)

lemma twr_matches_spec_without_override:
  assumes "getMonthlyReturnRate config m = calculateDefaultMonthlyReturnRate config"
    and "1 \<le> m" and "int m \<le> calculateMonthDifference rt config"
  shows "\<exists>rows. calculate rt config = Inr rows \<and> m < length rows \<and>
           timeWeightedReturn (rows ! m) = timeWeightedReturn_spec config rows m"
proof -
  obtain rows where rows: "calculate rt config = Inr rows"
    and len: "length rows = Suc (nat (calculateMonthDifference rt config))"
    and step: "\<And>i. Suc i < length rows \<Longrightarrow>
        (\<exists>twr mwr.
           calculateTimeWeightedReturn config
             (take (Suc i) rows @ [pushedRow rt config (rows ! i) (Suc i)]) (Suc i) = Inr twr \<and>
           rows ! Suc i = (pushedRow rt config (rows ! i) (Suc i))
                            \<lparr> timeWeightedReturn := twr, moneyWeightedReturn := mwr \<rparr>)"
    using calculate_rows[of rt config] by blast
  have ml: "m < length rows" using len assms(3) by simp
  obtain k where k: "m = Suc k" using assms(2) by (cases m) auto
  let ?T = "take m rows @ [pushedRow rt config (rows ! k) m]"
  obtain twr mwr where
    twr: "calculateTimeWeightedReturn config ?T m = Inr twr" and
    r: "rows ! m = (pushedRow rt config (rows ! k) m)
                            \<lparr> timeWeightedReturn := twr, moneyWeightedReturn := mwr \<rparr>"
    using step[of k] ml unfolding k by blast
  have lenT: "length ?T = Suc m" using ml by simp
  have nthT: "?T ! i = rows ! i" if "i < m" for i
    using that ml by (simp add: nth_append)
  have loop: "periodReturnsLoop config ?T [1..<m] =
           Inr (map (\<lambda>i. periodReturn_spec config (endingPrinciple (?T ! (i - 1)))
                                                   (endingPrinciple (?T ! i))) [1..<m])"
    by (rule periodReturnsLoop_spec) (use ml in auto)
  have "map (\<lambda>i. periodReturn_spec config (endingPrinciple (?T ! (i - 1))) (endingPrinciple (?T ! i))) [1..<m]
      = map (\<lambda>i. periodReturn_spec config (endingPrinciple (rows ! (i - 1))) (endingPrinciple (rows ! i))) [1..<m]"
  proof (rule map_cong[OF refl])
    fix i assume "i \<in> set [1..<m]"
    then have "i < m" "i - 1 < m" by auto
    then show "periodReturn_spec config (endingPrinciple (?T ! (i - 1))) (endingPrinciple (?T ! i))
      = periodReturn_spec config (endingPrinciple (rows ! (i - 1))) (endingPrinciple (rows ! i))"
      by (simp only: nthT)
  qed
  with loop have loop': "periodReturnsLoop config ?T [1..<m] =
           Inr (map (\<lambda>i. periodReturn_spec config (endingPrinciple (rows ! (i - 1)))
                                                   (endingPrinciple (rows ! i))) [1..<m])"
    by simp
  have prev: "row_at ?T (int m - 1) = Inr (rows ! (m - 1))"
    using row_at_pred[of m ?T] assms(2) lenT nthT[of "m - 1"] by simp
  have "twr = timeWeightedReturn_spec config rows m"
    using twr assms(2)
    unfolding calculateTimeWeightedReturn_unfold loop' prev timeWeightedReturn_spec_def
      replayedPeriodReturn_spec[OF assms(1)]
    by simp
  then have "timeWeightedReturn (rows ! m) = timeWeightedReturn_spec config rows m"
    unfolding r by simp
  then show ?thesis using rows ml by blast
qed

lemma mwr_equals_total_net_without_override:
  assumes "monthly_contribution (global config) = 0"
    and "getMonthlyReturnRate config m = calculateDefaultMonthlyReturnRate config"
    and "1 \<le> m" and "int m \<le> calculateMonthDifference rt config"
  shows "\<exists>rows. calculate rt config = Inr rows \<and> m < length rows \<and>
           moneyWeightedReturn (rows ! m) = totalNetReturnRate (rows ! m) \<and>
           moneyWeightedReturn (rows ! m) =
             dec_mul (dec_minus (dec_div (endingPrinciple (rows ! m))
                                         (Fin (starting_principle (global config)))) (Fin 1)) (Fin 100)"
proof -
  obtain rows where rows: "calculate rt config = Inr rows"
    and len: "length rows = Suc (nat (calculateMonthDifference rt config))"
    and r0: "rows ! 0 = initializeTable config ! 0"
    and step: "\<And>i. Suc i < length rows \<Longrightarrow>
        (\<exists>twr mwr.
           calculateMoneyWeightedReturn rt config
             (take (Suc i) rows @ [pushedRow rt config (rows ! i) (Suc i)]) (Suc i) = Inr mwr \<and>
           rows ! Suc i = (pushedRow rt config (rows ! i) (Suc i))
                            \<lparr> timeWeightedReturn := twr, moneyWeightedReturn := mwr \<rparr>)"
    using calculate_rows[of rt config] by blast
  have ml: "m < length rows" using len assms(4) by simp
  obtain k where k: "m = Suc k" using assms(3) by (cases m) auto
  have cc: "cumulativeContributions (rows ! i) = Fin (starting_principle (global config))"
    if "i < length rows" for i
    using that
  proof (induction i)
    case 0
    then show ?case by (simp add: r0 initializeTable_def)
  next
    case (Suc i)
    obtain twr mwr where
      r: "rows ! Suc i = (pushedRow rt config (rows ! i) (Suc i))
                            \<lparr> timeWeightedReturn := twr, moneyWeightedReturn := mwr \<rparr>"
      using step[of i] Suc.prems by blast
    show ?case using Suc assms(1) by (simp add: r pushedRow_def Let_def)
  qed
  let ?T = "take m rows @ [pushedRow rt config (rows ! k) m]"
  obtain twr mwr where
    mwr: "calculateMoneyWeightedReturn rt config ?T m = Inr mwr" and
    r: "rows ! m = (pushedRow rt config (rows ! k) m)
                            \<lparr> timeWeightedReturn := twr, moneyWeightedReturn := mwr \<rparr>"
    using step[of k] ml unfolding k by blast
  have lenT: "length ?T = Suc m" using ml by simp
  have "?T ! (m - 1) = rows ! k" using ml k by (simp add: nth_append)
  then have prev: "row_at ?T (int m - 1) = Inr (rows ! k)"
    using row_at_pred[of m ?T] assms(3) lenT by simp
  have ck: "cumulativeContributions (rows ! k) = Fin (starting_principle (global config))"
    using cc[of k] ml k by simp
  have m1: "mwr = totalNetReturnRate (pushedRow rt config (rows ! k) m)"
    using mwr assms(3)
    unfolding calculateMoneyWeightedReturn_def prev
    by (simp add: assms(1,2) pushedRow_def Let_def ck)
  have m2: "mwr = dec_mul (dec_minus (dec_div (endingPrinciple (pushedRow rt config (rows ! k) m))
                                         (Fin (starting_principle (global config)))) (Fin 1)) (Fin 100)"
    using mwr assms(3)
    unfolding calculateMoneyWeightedReturn_def prev
    by (simp add: assms(1,2) pushedRow_def Let_def)
  show ?thesis
    apply (rule exI[of _ rows])
    unfolding r using rows ml m1 m2 by simp
qed

end
